theory Spec2Isabelle
  imports Complex_Main "HOL-Library.Sublist"
begin

section \<open>JavaScript values and string primitives\<close>

text \<open>
  The formatters of the reactive-names script (its \<^verbatim>\<open>utils\<close> and
  \<^verbatim>\<open>reactiveLogic\<close> objects) and of \<^verbatim>\<open>IcecatScanner.populateForm\<close> only
  handle strings, booleans and numbers. A JavaScript string is modelled as a
  \<^typ>\<open>string\<close> whose characters are the code units below 256 (Latin-1); a value that
  may be \<^verbatim>\<open>undefined\<close>, \<^verbatim>\<open>null\<close> or a string is a \<open>jsval\<close>.
\<close>

datatype jsval = Undefined | Null | Str string

text \<open>\<^verbatim>\<open>Boolean(v)\<close>: \<^verbatim>\<open>undefined\<close>, \<^verbatim>\<open>null\<close> and the empty string are falsy.\<close>

fun truthy :: "jsval \<Rightarrow> bool" where
  "truthy Undefined = False"
| "truthy Null = False"
| "truthy (Str s) = (s \<noteq> [])"

text \<open>\<^verbatim>\<open>String(v)\<close>.\<close>

fun String_js :: "jsval \<Rightarrow> string" where
  "String_js Undefined = ''undefined''"
| "String_js Null = ''null''"
| "String_js (Str s) = s"

text \<open>\<^verbatim>\<open>v || ''\<close>, the idiom every field read of \<^verbatim>\<open>reactiveLogic\<close> ends with.\<close>

fun orEmpty :: "jsval \<Rightarrow> string" where
  "orEmpty Undefined = []"
| "orEmpty Null = []"
| "orEmpty (Str s) = s"

text \<open>
  White space and line terminators of ECMAScript in the Latin-1 range: TAB, LF, VT, FF,
  CR, SP and NBSP. \<^verbatim>\<open>String.prototype.trim\<close> strips them from both ends.
\<close>

definition isWhiteSpace :: "char \<Rightarrow> bool" where
  "isWhiteSpace c =
     (let n = (of_char c :: nat) in (9 \<le> n \<and> n \<le> 13) \<or> n = 32 \<or> n = 160)"

definition trim :: "string \<Rightarrow> string" where
  "trim s = rev (dropWhile isWhiteSpace (rev (dropWhile isWhiteSpace s)))"

text \<open>
  \<^verbatim>\<open>String.prototype.toLowerCase\<close> on Latin-1: A--Z and the accented capitals
  U+00C0--U+00DE (without the multiplication sign U+00D7) move up by 32.
\<close>

definition lowerChar :: "char \<Rightarrow> char" where
  "lowerChar c =
     (let n = (of_char c :: nat)
      in if (65 \<le> n \<and> n \<le> 90) \<or> (192 \<le> n \<and> n \<le> 222 \<and> n \<noteq> 215)
         then char_of (n + 32) else c)"

definition toLowerCase :: "string \<Rightarrow> string" where
  "toLowerCase s = map lowerChar s"

text \<open>\<^verbatim>\<open>Array.prototype.join\<close> on an array of strings.\<close>

fun join :: "string \<Rightarrow> string list \<Rightarrow> string" where
  "join sep [] = []"
| "join sep [x] = x"
| "join sep (x # y # ys) = x @ sep @ join sep (y # ys)"

text \<open>\<^verbatim>\<open>s.includes(t)\<close>: \<open>t\<close> occurs in \<open>s\<close> at some position.\<close>

fun js_includes :: "string \<Rightarrow> string \<Rightarrow> bool" where
  "js_includes [] t = (t = [])"
| "js_includes (c # cs) t = (prefix t (c # cs) \<or> js_includes cs t)"

text \<open>
  \<^verbatim>\<open>s.replace(pat, rep)\<close> with a string pattern: only the first occurrence is
  replaced (the replacement texts of the source contain no \<^verbatim>\<open>$\<close>).
\<close>

fun replaceFirst :: "string \<Rightarrow> string \<Rightarrow> string \<Rightarrow> string" where
  "replaceFirst pat rep [] = (if pat = [] then rep else [])"
| "replaceFirst pat rep (c # cs) =
     (if prefix pat (c # cs) then rep @ drop (length pat) (c # cs)
      else c # replaceFirst pat rep cs)"

text \<open>
  \<^verbatim>\<open>s.replace(/pat/g, rep)\<close> for a literal, non-empty pattern: every occurrence,
  found from left to right without overlap, is replaced.
\<close>

fun replaceAll :: "string \<Rightarrow> string \<Rightarrow> string \<Rightarrow> string" where
  "replaceAll pat rep [] = []"
| "replaceAll pat rep (c # cs) =
     (if prefix pat (c # cs) then rep @ replaceAll pat rep (drop (length pat - 1) cs)
      else c # replaceAll pat rep cs)"

section \<open>\<^verbatim>\<open>utils.cleanJoin\<close>\<close>

text \<open>
  \<^verbatim>\<open>
  cleanJoin: function (parts) {
      const cleanParts = [];
      parts.filter(Boolean).forEach(p => {
          const part = String(p).trim();
          if (!part) return;
          if (cleanParts.length === 0 ||
              part.toLowerCase() !== cleanParts[cleanParts.length - 1].toLowerCase()) {
              cleanParts.push(part);
          }
      });
      return cleanParts.join(' ');
  }
  \<close>
  \<open>cleanJoin_each\<close> is the body of the \<^verbatim>\<open>forEach\<close> callback, run on the array
  \<open>cleanParts\<close> built so far.
\<close>

definition cleanJoin_each :: "string list \<Rightarrow> jsval \<Rightarrow> string list" where
  "cleanJoin_each cleanParts p =
     (let part = trim (String_js p)
      in if part = [] then cleanParts
         else if length cleanParts = 0 \<or> toLowerCase part \<noteq> toLowerCase (last cleanParts)
              then cleanParts @ [part]
              else cleanParts)"

definition cleanParts :: "jsval list \<Rightarrow> string list" where
  "cleanParts parts = foldl cleanJoin_each [] (filter truthy parts)"

definition cleanJoin :: "jsval list \<Rightarrow> string" where
  "cleanJoin parts = join '' '' (cleanParts parts)"

subsection \<open>The contract of \<open>cleanJoin\<close> in the specification's words\<close>

text \<open>
  The tokens that are present: the strings of the sequence, trimmed, without the ones
  that are empty after trimming, in their original order.
\<close>

fun presentTokens :: "jsval list \<Rightarrow> string list" where
  "presentTokens [] = []"
| "presentTokens (Str s # ps) =
     (if trim s = [] then presentTokens ps else trim s # presentTokens ps)"
| "presentTokens (Undefined # ps) = presentTokens ps"
| "presentTokens (Null # ps) = presentTokens ps"

text \<open>
  Adjacent-duplicate suppression: a token is kept unless it equals, ignoring case, the
  kept token just before it.
\<close>

fun dedupAdjacent :: "string list \<Rightarrow> string list" where
  "dedupAdjacent [] = []"
| "dedupAdjacent [x] = [x]"
| "dedupAdjacent (x # y # ys) =
     (if toLowerCase y = toLowerCase x then dedupAdjacent (x # ys)
      else x # dedupAdjacent (y # ys))"

section \<open>Digits, the regular expression and \<^verbatim>\<open>parseInt\<close>\<close>

text \<open>The class \<^verbatim>\<open>\d\<close> of a JavaScript regular expression: the ASCII digits.\<close>

definition isDigit :: "char \<Rightarrow> bool" where
  "isDigit c = (let n = (of_char c :: nat) in 48 \<le> n \<and> n \<le> 57)"

text \<open>
  \<^verbatim>\<open>/(\d{3,4})/\<close> tried at the start of \<open>s\<close>: three digits are required, the
  quantifier is greedy and takes a fourth digit when there is one.
\<close>

fun match_d34_at :: "string \<Rightarrow> string option" where
  "match_d34_at (a # b # c # rest) =
     (if isDigit a \<and> isDigit b \<and> isDigit c
      then (case rest of
              [] \<Rightarrow> Some [a, b, c]
            | d # _ \<Rightarrow> if isDigit d then Some [a, b, c, d] else Some [a, b, c])
      else None)"
| "match_d34_at _ = None"

text \<open>
  \<^verbatim>\<open>str.match(/(\d{3,4})/)\<close>: the expression is not global, so the search tries the
  start positions from left to right and returns the first match (its group 1), or
  \<^verbatim>\<open>null\<close>.
\<close>

fun regex_d34 :: "string \<Rightarrow> string option" where
  "regex_d34 [] = None"
| "regex_d34 (c # cs) =
     (case match_d34_at (c # cs) of Some m \<Rightarrow> Some m | None \<Rightarrow> regex_d34 cs)"

text \<open>
  \<^verbatim>\<open>parseInt(str)\<close> without a radix, after ECMAScript: leading white space is skipped,
  a sign is read, the prefix \<^verbatim>\<open>0x\<close>/\<^verbatim>\<open>0X\<close> switches to radix 16, the longest prefix
  of digits of the radix is the number, and no digit at all gives \<^verbatim>\<open>NaN\<close>
  (\<open>None\<close>). The result is the exact integer: a JavaScript number holds it exactly
  up to \<open>2^53\<close>, which bounds the inputs of the theorems that print such a number.
\<close>

definition digitValue :: "char \<Rightarrow> nat option" where
  "digitValue c =
     (let n = (of_char c :: nat)
      in if 48 \<le> n \<and> n \<le> 57 then Some (n - 48)
         else if 97 \<le> n \<and> n \<le> 122 then Some (n - 87)
         else if 65 \<le> n \<and> n \<le> 90 then Some (n - 55)
         else None)"

definition isRadixDigit :: "nat \<Rightarrow> char \<Rightarrow> bool" where
  "isRadixDigit R c = (case digitValue c of None \<Rightarrow> False | Some d \<Rightarrow> d < R)"

definition radixValue :: "nat \<Rightarrow> string \<Rightarrow> nat" where
  "radixValue R Z =
     foldl (\<lambda>a c. a * R + (case digitValue c of None \<Rightarrow> 0 | Some d \<Rightarrow> d)) 0 Z"

definition parseInt :: "string \<Rightarrow> int option" where
  "parseInt str =
     (let S = dropWhile isWhiteSpace str;
          sign = (if prefix ''-'' S then - 1 else 1);
          S1 = (if prefix ''+'' S \<or> prefix ''-'' S then drop 1 S else S);
          hex = (prefix ''0x'' S1 \<or> prefix ''0X'' S1);
          R = (if hex then 16 else 10);
          S2 = (if hex then drop 2 S1 else S1);
          Z = takeWhile (isRadixDigit R) S2
      in if Z = [] then None else Some (sign * int (radixValue R Z)))"

section \<open>\<^verbatim>\<open>utils.mapResolution\<close>\<close>

text \<open>
  \<^verbatim>\<open>
  mapResolution: function (res) {
      if (!res) return null;
      const match = String(res).match(/(\d{3,4})/);
      if (!match) return null;
      const hRes = parseInt(match[1]);
      if (hRes >= 1800 && hRes <= 2000) return "FHD";
      if (hRes > 2000 && hRes <= 2600) return "2K";
      if (hRes > 2600 && hRes <= 2900) return "2.5K";
      if (hRes > 2900 && hRes <= 3400) return "3K";
      if (hRes > 3400 && hRes <= 4500) return "4K";
      if (hRes > 7000 && hRes <= 8500) return "8K";
      return null;
  }
  \<close>
  The local \<^verbatim>\<open>mapResolution\<close> of \<^verbatim>\<open>populateForm\<close> is the same function without
  the \<^verbatim>\<open>String(...)\<close> conversion, which changes nothing on a string. The chain of
  comparisons is \<open>mapResolution_label\<close>; every comparison with \<^verbatim>\<open>NaN\<close> is false,
  so \<^verbatim>\<open>NaN\<close> falls through to \<^verbatim>\<open>null\<close>.
\<close>

definition mapResolution_label :: "int \<Rightarrow> string option" where
  "mapResolution_label hRes =
     (if hRes \<ge> 1800 \<and> hRes \<le> 2000 then Some ''FHD''
      else if hRes > 2000 \<and> hRes \<le> 2600 then Some ''2K''
      else if hRes > 2600 \<and> hRes \<le> 2900 then Some ''2.5K''
      else if hRes > 2900 \<and> hRes \<le> 3400 then Some ''3K''
      else if hRes > 3400 \<and> hRes \<le> 4500 then Some ''4K''
      else if hRes > 7000 \<and> hRes \<le> 8500 then Some ''8K''
      else None)"

definition mapResolution :: "jsval \<Rightarrow> string option" where
  "mapResolution res =
     (if \<not> truthy res then None
      else case regex_d34 (String_js res) of
             None \<Rightarrow> None
           | Some m \<Rightarrow> (case parseInt m of
                          None \<Rightarrow> None
                        | Some hRes \<Rightarrow> mapResolution_label hRes))"

subsection \<open>Runs of digits, in the specification's words\<close>

text \<open>\<open>digitsAt s i k\<close>: the \<open>k\<close> characters of \<open>s\<close> from position \<open>i\<close> exist and are digits.\<close>

definition digitsAt :: "string \<Rightarrow> nat \<Rightarrow> nat \<Rightarrow> bool" where
  "digitsAt s i k = (i + k \<le> length s \<and> list_all isDigit (take k (drop i s)))"

text \<open>The integer a string of decimal digits denotes.\<close>

definition decimalValue :: "string \<Rightarrow> nat" where
  "decimalValue ds = foldl (\<lambda>a c. 10 * a + (of_char c - 48)) 0 ds"

section \<open>Numbers and their text\<close>

text \<open>
  A number that \<^verbatim>\<open>parseInt\<close> returns is an \<^typ>\<open>int option\<close>, \<open>None\<close> being
  \<^verbatim>\<open>NaN\<close>; every comparison with \<^verbatim>\<open>NaN\<close> is false. The quotient by 1024 is
  exact in a JavaScript number as long as the integer is (up to \<open>2^53\<close>): it is
  modelled as a rational.
\<close>

fun num_ge :: "int option \<Rightarrow> int \<Rightarrow> bool" where
  "num_ge None k = False"
| "num_ge (Some n) k = (n \<ge> k)"

fun num_gt :: "int option \<Rightarrow> int \<Rightarrow> bool" where
  "num_gt None k = False"
| "num_gt (Some n) k = (n > k)"

fun num_div :: "int option \<Rightarrow> int \<Rightarrow> rat option" where
  "num_div None k = None"
| "num_div (Some n) k = Some (of_int n / of_int k)"

text \<open>The decimal digits of a natural number, as \<^verbatim>\<open>Number.prototype.toString\<close> writes them.\<close>

definition digitChar :: "nat \<Rightarrow> char" where
  "digitChar d = char_of (48 + d)"

fun digits10 :: "nat \<Rightarrow> string" where
  "digits10 n =
     (if n < 10 then [digitChar n] else digits10 (n div 10) @ [digitChar (n mod 10)])"

declare digits10.simps [simp del]

text \<open>
  A template literal \<^verbatim>\<open>${n}\<close> on an integer-valued number below \<open>10^21\<close> (from
  there on JavaScript writes the exponent form, which is outside the model, as is a
  number with decimals).
\<close>

definition numberToString :: "int \<Rightarrow> string" where
  "numberToString n = (if n < 0 then ''-'' @ digits10 (nat (- n)) else digits10 (nat n))"

text \<open>
  \<^verbatim>\<open>x.toFixed(1)\<close>, after ECMAScript (for \<open>\<bar>x\<bar> < 10^21\<close>, which the safe integers
  divided by 1024 are): \<open>n\<close> is the integer for which \<open>n / 10 - x\<close> is closest to zero,
  the larger one if there are two; its digits, padded to two, get the point before the
  last one. \<^verbatim>\<open>NaN.toFixed(1)\<close> is \<^verbatim>\<open>"NaN"\<close>.
\<close>

fun toFixed1 :: "rat option \<Rightarrow> string" where
  "toFixed1 None = ''NaN''"
| "toFixed1 (Some x) =
     (let s = (if x < 0 then ''-'' else []);
          a = \<bar>x\<bar>;
          n = nat \<lfloor>a * 10 + 1 / 2\<rfloor>;
          m = digits10 n;
          m = (if length m \<le> 1 then ''0'' @ m else m);
          k = length m
      in s @ take (k - 1) m @ ''.'' @ drop (k - 1) m)"

section \<open>The reactive formatters (\<^verbatim>\<open>reactiveLogic\<close>)\<close>

text \<open>
  Each \<^verbatim>\<open>updateX\<close> reads form fields as
  \<^verbatim>\<open>document.getElementById(id)?.value || ''\<close> (a \<open>jsval\<close>: the \<^verbatim>\<open>value\<close> of a form
  control is a string, and \<^verbatim>\<open>undefined\<close> when the element is missing) and check boxes
  as \<^verbatim>\<open>?.checked\<close> (a \<^typ>\<open>bool\<close>, a missing element being falsy), collects tokens in
  the array \<^verbatim>\<open>parts\<close> and writes \<^verbatim>\<open>utils.cleanJoin(parts)\<close> into the full-name
  field. \<open>updateX_parts\<close> is the array handed to \<^verbatim>\<open>cleanJoin\<close>, \<open>updateX\<close> the
  text written to the target.

  After \<^verbatim>\<open>|| ''\<close> every field is a string, and the operations applied to it
  (\<^verbatim>\<open>toLowerCase\<close>, \<^verbatim>\<open>includes\<close>, \<^verbatim>\<open>replace\<close>, \<^verbatim>\<open>parseInt\<close>, a template
  literal) are defined on every string. The one method call on a value that may be
  \<^verbatim>\<open>null\<close>, \<^verbatim>\<open>resLabel.toLowerCase()\<close>, stands behind \<^verbatim>\<open>!resLabel ||\<close>. So no path
  of these functions throws, and each is a plain function into \<^typ>\<open>string\<close>, with
  no error value.
\<close>

subsection \<open>\<^verbatim>\<open>updateProcessor\<close>\<close>

text \<open>
  \<^verbatim>\<open>
  let parts = [];
  if (generation) parts.push(generation);
  if (family && !generation.toLowerCase().includes(family.toLowerCase())) {
      parts.push(family);
  }
  parts.push(model);
  const fullName = utils.cleanJoin(parts);
  \<close>
\<close>

definition updateProcessor_parts :: "jsval \<Rightarrow> jsval \<Rightarrow> jsval \<Rightarrow> jsval list" where
  "updateProcessor_parts processor_family processor_generation processor_model =
     (let family = orEmpty processor_family;
          generation = orEmpty processor_generation;
          model = orEmpty processor_model;
          parts = [];
          parts = (if generation \<noteq> [] then parts @ [Str generation] else parts);
          parts = (if family \<noteq> []
                      \<and> \<not> js_includes (toLowerCase generation) (toLowerCase family)
                   then parts @ [Str family] else parts);
          parts = parts @ [Str model]
      in parts)"

definition updateProcessor :: "jsval \<Rightarrow> jsval \<Rightarrow> jsval \<Rightarrow> string" where
  "updateProcessor processor_family processor_generation processor_model =
     cleanJoin (updateProcessor_parts processor_family processor_generation processor_model)"

subsection \<open>\<^verbatim>\<open>updateScreen\<close>\<close>

text \<open>
  \<^verbatim>\<open>
  const resLabel = utils.mapResolution(resolution);
  const parts = [];
  if (diagonal) parts.push(`${diagonal}"`);
  if (resLabel) parts.push(resLabel);
  if (hdType) {
      if (!resLabel || hdType.toLowerCase() !== resLabel.toLowerCase()) {
          parts.push(hdType);
      }
  }
  if (panel) parts.push(panel.replace(/-Level/g, ''));
  if (refresh && parseInt(refresh) > 60) parts.push(`${refresh}Hz`);
  if (touch) parts.push('Touch');
  const fullName = utils.cleanJoin(parts);
  \<close>
  The inch mark is the character \<open>0x22\<close>.
\<close>

definition updateScreen_parts ::
  "jsval \<Rightarrow> jsval \<Rightarrow> jsval \<Rightarrow> jsval \<Rightarrow> jsval \<Rightarrow> bool \<Rightarrow> jsval list" where
  "updateScreen_parts screen_diagonal_inches screen_resolution screen_hd_type
       screen_panel_type screen_refresh_rate touch =
     (let diagonal = orEmpty screen_diagonal_inches;
          resolution = orEmpty screen_resolution;
          hdType = orEmpty screen_hd_type;
          panel = orEmpty screen_panel_type;
          refresh = orEmpty screen_refresh_rate;
          resLabel = mapResolution (Str resolution);
          parts = [];
          parts = (if diagonal \<noteq> [] then parts @ [Str (diagonal @ [CHR 0x22])] else parts);
          parts = (case resLabel of
                     None \<Rightarrow> parts
                   | Some l \<Rightarrow> if l \<noteq> [] then parts @ [Str l] else parts);
          parts = (if hdType \<noteq> []
                   then (case resLabel of
                           None \<Rightarrow> parts @ [Str hdType]
                         | Some l \<Rightarrow> if l = [] \<or> toLowerCase hdType \<noteq> toLowerCase l
                                    then parts @ [Str hdType] else parts)
                   else parts);
          parts = (if panel \<noteq> [] then parts @ [Str (replaceAll ''-Level'' [] panel)]
                   else parts);
          parts = (if refresh \<noteq> [] \<and> num_gt (parseInt refresh) 60
                   then parts @ [Str (refresh @ ''Hz'')] else parts);
          parts = (if touch then parts @ [Str ''Touch''] else parts)
      in parts)"

definition updateScreen ::
  "jsval \<Rightarrow> jsval \<Rightarrow> jsval \<Rightarrow> jsval \<Rightarrow> jsval \<Rightarrow> bool \<Rightarrow> string" where
  "updateScreen screen_diagonal_inches screen_resolution screen_hd_type
       screen_panel_type screen_refresh_rate touch =
     cleanJoin (updateScreen_parts screen_diagonal_inches screen_resolution screen_hd_type
       screen_panel_type screen_refresh_rate touch)"

subsection \<open>\<^verbatim>\<open>updateDiscreteGPU\<close>\<close>

text \<open>
  \<^verbatim>\<open>
  const hasDiscrete = document.getElementById('has_discrete_gpu')?.checked;
  if (!hasDiscrete) {
      const target = document.getElementById('discrete_gpu_full_name');
      if (target) target.value = '';
      return;
  }
  ...
  let parts = [];
  if (brand && !model.toLowerCase().includes(brand.toLowerCase())) {
      parts.push(brand);
  }
  parts.push(model);
  if (memory) parts.push(`${memory}GB`);
  if (type) parts.push(type);
  const fullName = utils.cleanJoin(parts);
  \<close>
\<close>

definition updateDiscreteGPU_parts :: "jsval \<Rightarrow> jsval \<Rightarrow> jsval \<Rightarrow> jsval \<Rightarrow> jsval list" where
  "updateDiscreteGPU_parts discrete_gpu_brand discrete_gpu_model discrete_gpu_memory_gb
       discrete_gpu_memory_type =
     (let brand = orEmpty discrete_gpu_brand;
          model = orEmpty discrete_gpu_model;
          memory = orEmpty discrete_gpu_memory_gb;
          type = orEmpty discrete_gpu_memory_type;
          parts = [];
          parts = (if brand \<noteq> [] \<and> \<not> js_includes (toLowerCase model) (toLowerCase brand)
                   then parts @ [Str brand] else parts);
          parts = parts @ [Str model];
          parts = (if memory \<noteq> [] then parts @ [Str (memory @ ''GB'')] else parts);
          parts = (if type \<noteq> [] then parts @ [Str type] else parts)
      in parts)"

definition updateDiscreteGPU :: "bool \<Rightarrow> jsval \<Rightarrow> jsval \<Rightarrow> jsval \<Rightarrow> jsval \<Rightarrow> string" where
  "updateDiscreteGPU hasDiscrete discrete_gpu_brand discrete_gpu_model discrete_gpu_memory_gb
       discrete_gpu_memory_type =
     (if \<not> hasDiscrete then []
      else cleanJoin (updateDiscreteGPU_parts discrete_gpu_brand discrete_gpu_model
             discrete_gpu_memory_gb discrete_gpu_memory_type))"

subsection \<open>\<^verbatim>\<open>updateOnboardGPU\<close>\<close>

text \<open>
  \<^verbatim>\<open>
  let parts = [];
  if (brand && !model.toLowerCase().includes(brand.toLowerCase())) {
      parts.push(brand);
  }
  parts.push(model);
  if (family && !model.toLowerCase().includes(family.toLowerCase())) {
      parts.push(family);
  }
  if (memory) parts.push(`${memory}GB`);
  const fullName = utils.cleanJoin(parts);
  \<close>
\<close>

definition updateOnboardGPU_parts :: "jsval \<Rightarrow> jsval \<Rightarrow> jsval \<Rightarrow> jsval \<Rightarrow> jsval list" where
  "updateOnboardGPU_parts onboard_gpu_brand onboard_gpu_model onboard_gpu_family
       onboard_gpu_memory_gb =
     (let brand = orEmpty onboard_gpu_brand;
          model = orEmpty onboard_gpu_model;
          family = orEmpty onboard_gpu_family;
          memory = orEmpty onboard_gpu_memory_gb;
          parts = [];
          parts = (if brand \<noteq> [] \<and> \<not> js_includes (toLowerCase model) (toLowerCase brand)
                   then parts @ [Str brand] else parts);
          parts = parts @ [Str model];
          parts = (if family \<noteq> [] \<and> \<not> js_includes (toLowerCase model) (toLowerCase family)
                   then parts @ [Str family] else parts);
          parts = (if memory \<noteq> [] then parts @ [Str (memory @ ''GB'')] else parts)
      in parts)"

definition updateOnboardGPU :: "jsval \<Rightarrow> jsval \<Rightarrow> jsval \<Rightarrow> jsval \<Rightarrow> string" where
  "updateOnboardGPU onboard_gpu_brand onboard_gpu_model onboard_gpu_family
       onboard_gpu_memory_gb =
     cleanJoin (updateOnboardGPU_parts onboard_gpu_brand onboard_gpu_model onboard_gpu_family
       onboard_gpu_memory_gb)"

subsection \<open>\<^verbatim>\<open>updateStorage\<close>\<close>

text \<open>
  \<^verbatim>\<open>
  let capStr = capacity;
  if (capacity && parseInt(capacity) >= 1024) {
      capStr = `${(parseInt(capacity) / 1024).toFixed(1)}TB`.replace('.0', '');
  } else if (capacity) {
      capStr = `${capacity}GB`;
  }
  const parts = [capStr, media, nvme ? 'NVMe' : '', formFactor];
  const fullName = utils.cleanJoin(parts);
  \<close>
\<close>

definition updateStorage_capStr :: "string \<Rightarrow> string" where
  "updateStorage_capStr capacity =
     (if capacity \<noteq> [] \<and> num_ge (parseInt capacity) 1024
      then replaceFirst ''.0'' [] (toFixed1 (num_div (parseInt capacity) 1024) @ ''TB'')
      else if capacity \<noteq> [] then capacity @ ''GB''
      else capacity)"

definition updateStorage_parts :: "jsval \<Rightarrow> jsval \<Rightarrow> bool \<Rightarrow> jsval \<Rightarrow> jsval list" where
  "updateStorage_parts storage_capacity storage_media nvme storage_form_factor =
     (let capacity = orEmpty storage_capacity;
          media = orEmpty storage_media;
          formFactor = orEmpty storage_form_factor;
          capStr = updateStorage_capStr capacity
      in [Str capStr, Str media, Str (if nvme then ''NVMe'' else []), Str formFactor])"

definition updateStorage :: "jsval \<Rightarrow> jsval \<Rightarrow> bool \<Rightarrow> jsval \<Rightarrow> string" where
  "updateStorage storage_capacity storage_media nvme storage_form_factor =
     cleanJoin (updateStorage_parts storage_capacity storage_media nvme storage_form_factor)"

subsection \<open>\<^verbatim>\<open>updateRAM\<close>\<close>



section \<open>The full names of \<^verbatim>\<open>IcecatScanner.populateForm\<close>\<close>

text \<open>
  \<^verbatim>\<open>populateForm(product)\<close> fills the same form from the product record of the Icecat
  API and derives the full names of screen, graphics, storage and memory a second time,
  inline. The records below are the parts of \<^verbatim>\<open>product\<close> these blocks read, typed as
  the API sends them: a text field is a \<open>jsval\<close>, a numeric field an \<^typ>\<open>int option\<close>
  (\<open>None\<close> for \<^verbatim>\<open>null\<close> or a missing property; whole numbers only, a number with
  decimals is outside the model), a flag a \<^typ>\<open>bool\<close>. The memory type
  \<^verbatim>\<open>memoria_ram.tipo\<close> is the field \<open>tipo_ram\<close>.
\<close>

record pantalla =
  resolucion :: jsval
  tipo_hd :: jsval
  diagonal_pulgadas :: "int option"
  tipo :: jsval
  tasa_refresco_hz :: "int option"
  tactil :: bool

record tarjeta_grafica =
  tiene_dedicada :: bool
  marca_dedicada :: jsval
  modelo_dedicado :: jsval
  memoria_dedicada_gb :: "int option"
  tipo_memoria_dedicada :: jsval
  marca_integrada :: jsval
  modelo_integrado :: jsval
  familia_integrada :: jsval
  memoria_integrada_gb :: "int option"

record almacenamiento =
  capacidad_total_gb :: "int option"
  tipo_media :: jsval
  nvme :: bool
  factor_forma_ssd :: jsval


text \<open>Truthiness of a number (\<^verbatim>\<open>0\<close>, \<^verbatim>\<open>null\<close> and \<^verbatim>\<open>undefined\<close> are falsy) and its text in a template literal.\<close>

fun truthyNum :: "int option \<Rightarrow> bool" where
  "truthyNum None = False"
| "truthyNum (Some n) = (n \<noteq> 0)"

fun templateNum :: "int option \<Rightarrow> string" where
  "templateNum None = ''null''"
| "templateNum (Some n) = numberToString n"

text \<open>\<^verbatim>\<open>parts.filter(Boolean).join(' ')\<close> on an array of optional strings.\<close>

definition filterJoin :: "jsval list \<Rightarrow> string" where
  "filterJoin parts = join '' '' (map String_js (filter truthy parts))"

text \<open>
  The inline copy of the duplicate suppression (it does not trim):
  \<^verbatim>\<open>
  const cleanParts = [];
  const allParts = parts.filter(Boolean);
  allParts.forEach(p => {
      if (cleanParts.length === 0 ||
          p.toLowerCase() !== cleanParts[cleanParts.length - 1].toLowerCase()) {
          cleanParts.push(p);
      }
  });
  ... cleanParts.join(' ')
  \<close>
  \<open>kept\<close> is the array \<^verbatim>\<open>cleanParts\<close> built so far.
\<close>

definition inlineDedup_each :: "string list \<Rightarrow> jsval \<Rightarrow> string list" where
  "inlineDedup_each kept p =
     (if length kept = 0 \<or> toLowerCase (String_js p) \<noteq> toLowerCase (last kept)
      then kept @ [String_js p] else kept)"

definition inlineDedupJoin :: "jsval list \<Rightarrow> string" where
  "inlineDedupJoin parts = join '' '' (foldl inlineDedup_each [] (filter truthy parts))"

subsection \<open>Screen\<close>

text \<open>
  \<^verbatim>\<open>
  const resLabel = mapResolution(product.pantalla.resolucion);
  const screenFullNameParts = [
      product.pantalla.diagonal_pulgadas ? `${product.pantalla.diagonal_pulgadas}"` : ''
  ];
  if (resLabel) screenFullNameParts.push(resLabel);
  if (product.pantalla.tipo_hd) {
      if (!resLabel || product.pantalla.tipo_hd.toLowerCase() !== resLabel.toLowerCase()) {
          screenFullNameParts.push(product.pantalla.tipo_hd);
      }
  }
  if (product.pantalla.tipo) {
      screenFullNameParts.push(product.pantalla.tipo.replace(/-Level/g, ''));
  }
  if (product.pantalla.tasa_refresco_hz) {
      screenFullNameParts.push(`${product.pantalla.tasa_refresco_hz}Hz`);
  }
  const screenFullName = screenFullNameParts.filter(Boolean).join(' ');
  \<close>
\<close>

definition populateForm_screenFullNameParts :: "pantalla \<Rightarrow> jsval list" where
  "populateForm_screenFullNameParts p =
     (let resLabel = mapResolution (resolucion p);
          parts = [Str (if truthyNum (diagonal_pulgadas p)
                        then templateNum (diagonal_pulgadas p) @ [CHR 0x22] else [])];
          parts = (case resLabel of
                     None \<Rightarrow> parts
                   | Some l \<Rightarrow> if l \<noteq> [] then parts @ [Str l] else parts);
          parts = (if truthy (tipo_hd p)
                   then (case resLabel of
                           None \<Rightarrow> parts @ [tipo_hd p]
                         | Some l \<Rightarrow> if l = [] \<or> toLowerCase (String_js (tipo_hd p)) \<noteq> toLowerCase l
                                    then parts @ [tipo_hd p] else parts)
                   else parts);
          parts = (if truthy (tipo p)
                   then parts @ [Str (replaceAll ''-Level'' [] (String_js (tipo p)))]
                   else parts);
          parts = (if truthyNum (tasa_refresco_hz p)
                   then parts @ [Str (templateNum (tasa_refresco_hz p) @ ''Hz'')]
                   else parts)
      in parts)"

definition populateForm_screenFullName :: "pantalla \<Rightarrow> string" where
  "populateForm_screenFullName p = filterJoin (populateForm_screenFullNameParts p)"

subsection \<open>Discrete graphics\<close>

text \<open>
  \<^verbatim>\<open>
  if (product.tarjeta_grafica.tiene_dedicada) {
      const brand = product.tarjeta_grafica.marca_dedicada || "";
      const model = product.tarjeta_grafica.modelo_dedicado || "";
      const parts = [];
      if (brand && !model.toLowerCase().includes(brand.toLowerCase())) {
          parts.push(brand);
      }
      parts.push(model);
      parts.push(product.tarjeta_grafica.memoria_dedicada_gb
                   ? `${product.tarjeta_grafica.memoria_dedicada_gb}GB` : '');
      parts.push(product.tarjeta_grafica.tipo_memoria_dedicada);
      ... (the inline duplicate suppression)
      setVal('discrete_gpu_full_name', cleanParts.join(' '));
  }
  \<close>
  Without the flag the block does not run and \<^verbatim>\<open>populateForm\<close> writes no discrete
  name: the result is \<open>None\<close>.
\<close>

definition populateForm_discreteParts :: "tarjeta_grafica \<Rightarrow> jsval list" where
  "populateForm_discreteParts g =
     (let brand = orEmpty (marca_dedicada g);
          model = orEmpty (modelo_dedicado g);
          parts = [];
          parts = (if brand \<noteq> [] \<and> \<not> js_includes (toLowerCase model) (toLowerCase brand)
                   then parts @ [Str brand] else parts);
          parts = parts @ [Str model];
          parts = parts @ [Str (if truthyNum (memoria_dedicada_gb g)
                                then templateNum (memoria_dedicada_gb g) @ ''GB'' else [])];
          parts = parts @ [tipo_memoria_dedicada g]
      in parts)"

definition populateForm_discreteFullName :: "tarjeta_grafica \<Rightarrow> string option" where
  "populateForm_discreteFullName g =
     (if tiene_dedicada g then Some (inlineDedupJoin (populateForm_discreteParts g))
      else None)"

subsection \<open>Integrated graphics\<close>

text \<open>
  \<^verbatim>\<open>
  const iBrand = product.tarjeta_grafica.marca_integrada || "";
  const iModel = product.tarjeta_grafica.modelo_integrado || "";
  const iFamily = product.tarjeta_grafica.familia_integrada || "";
  const iParts = [];
  if (iBrand && !iModel.toLowerCase().includes(iBrand.toLowerCase())) {
      iParts.push(iBrand);
  }
  iParts.push(iModel);
  if (iFamily && !iModel.toLowerCase().includes(iFamily.toLowerCase())) {
      iParts.push(iFamily);
  }
  iParts.push(product.tarjeta_grafica.memoria_integrada_gb
                ? `${product.tarjeta_grafica.memoria_integrada_gb}GB` : '');
  ... (the inline duplicate suppression)
  setVal('onboard_gpu_full_name', cleanIParts.join(' '));
  \<close>
\<close>

definition populateForm_onboardParts :: "tarjeta_grafica \<Rightarrow> jsval list" where
  "populateForm_onboardParts g =
     (let iBrand = orEmpty (marca_integrada g);
          iModel = orEmpty (modelo_integrado g);
          iFamily = orEmpty (familia_integrada g);
          iParts = [];
          iParts = (if iBrand \<noteq> [] \<and> \<not> js_includes (toLowerCase iModel) (toLowerCase iBrand)
                    then iParts @ [Str iBrand] else iParts);
          iParts = iParts @ [Str iModel];
          iParts = (if iFamily \<noteq> [] \<and> \<not> js_includes (toLowerCase iModel) (toLowerCase iFamily)
                    then iParts @ [Str iFamily] else iParts);
          iParts = iParts @ [Str (if truthyNum (memoria_integrada_gb g)
                                  then templateNum (memoria_integrada_gb g) @ ''GB'' else [])]
      in iParts)"

definition populateForm_onboardFullName :: "tarjeta_grafica \<Rightarrow> string" where
  "populateForm_onboardFullName g = inlineDedupJoin (populateForm_onboardParts g)"

subsection \<open>Storage\<close>

text \<open>
  \<^verbatim>\<open>
  let capacityStr = '';
  if (product.almacenamiento.capacidad_total_gb) {
      if (product.almacenamiento.capacidad_total_gb >= 1024) {
          capacityStr = `${(product.almacenamiento.capacidad_total_gb / 1024).toFixed(1)}TB`
                          .replace('.0', '');
      } else {
          capacityStr = `${product.almacenamiento.capacidad_total_gb}GB`;
      }
  }
  const storageFullName = [
      capacityStr,
      product.almacenamiento.tipo_media,
      product.almacenamiento.nvme ? 'NVMe' : '',
      product.almacenamiento.factor_forma_ssd
  ].filter(Boolean).join(' ');
  \<close>
\<close>

definition populateForm_capacityStr :: "int option \<Rightarrow> string" where
  "populateForm_capacityStr capacidad =
     (if truthyNum capacidad
      then (if num_ge capacidad 1024
            then replaceFirst ''.0'' [] (toFixed1 (num_div capacidad 1024) @ ''TB'')
            else templateNum capacidad @ ''GB'')
      else [])"

definition populateForm_storageFullName :: "almacenamiento \<Rightarrow> string" where
  "populateForm_storageFullName a =
     filterJoin [Str (populateForm_capacityStr (capacidad_total_gb a)),
                 tipo_media a,
                 Str (if nvme a then ''NVMe'' else []),
                 factor_forma_ssd a]"

subsection \<open>Memory\<close>


subsection \<open>The capacity token in the specification's words\<close>

text \<open>
  \<open>tenths1024 n\<close> is \<open>n / 1024\<close> in tenths, rounded to the nearest tenth (a tie goes
  up); \<open>capacityTB n\<close> writes it with one decimal, drops the decimal when it is
  \<open>0\<close>, and appends \<^verbatim>\<open>TB\<close>.
\<close>

definition tenths1024 :: "nat \<Rightarrow> nat" where
  "tenths1024 n = (10 * n + 512) div 1024"

definition capacityTB :: "nat \<Rightarrow> string" where
  "capacityTB n =
     (let t = tenths1024 n
      in digits10 (t div 10) @ (if t mod 10 = 0 then [] else ''.'' @ digits10 (t mod 10))
           @ ''TB'')"

subsection \<open>The token of a field, in the specification's words\<close>

text \<open>
  \<open>tok field text\<close>: what a field contributes to a name, nothing when the field is
  empty and the one token \<open>text\<close> otherwise.
\<close>

definition tok :: "string \<Rightarrow> string \<Rightarrow> jsval list" where
  "tok field text = (if field = [] then [] else [Str text])"

text \<open>
  The token sequence of the integrated graphics name, in the specification's words:
  brand, model, family and memory in this order, the brand and the family only when
  they are not a substring of the model, ignoring case (\<^const>\<open>sublist\<close>: a contiguous
  part).
\<close>

definition integratedTokens :: "string \<Rightarrow> string \<Rightarrow> string \<Rightarrow> string \<Rightarrow> jsval list" where
  "integratedTokens brand model family memoryText =
     (if sublist (toLowerCase brand) (toLowerCase model) then [] else tok brand brand)
     @ tok model model
     @ (if sublist (toLowerCase family) (toLowerCase model) then [] else tok family family)
     @ tok memoryText (memoryText @ ''GB'')"



section \<open>The formatters with the throwing paths of JavaScript\<close>

text \<open>
  The definitions above take for granted that a formatter runs to its end. Here the
  same source is written once more with the paths on which JavaScript throws: a method
  call on \<^verbatim>\<open>undefined\<close> or \<^verbatim>\<open>null\<close>, and an index into \<^verbatim>\<open>null\<close>, raise a
  \<^verbatim>\<open>TypeError\<close>, which ends the function. A result is \<open>Inl TypeError\<close> or \<open>Inr\<close> of
  the value; \<open>bindE\<close> passes an error on. Conversions (\<^verbatim>\<open>String(v)\<close>, a template
  literal, \<^verbatim>\<open>parseInt\<close>, a truthiness test) and calls on a value that is a string by
  construction do not throw.
\<close>

datatype error = TypeError

definition bindE :: "error + 'a \<Rightarrow> ('a \<Rightarrow> error + 'b) \<Rightarrow> error + 'b" where
  "bindE r f = (case r of Inl e \<Rightarrow> Inl e | Inr x \<Rightarrow> f x)"

text \<open>\<^verbatim>\<open>v.toLowerCase()\<close>, \<^verbatim>\<open>v.replace(/-Level/g, '')\<close> and \<^verbatim>\<open>v.match(/(\d{3,4})/)\<close>.\<close>

fun toLowerCase_js :: "jsval \<Rightarrow> error + string" where
  "toLowerCase_js (Str s) = Inr (toLowerCase s)"
| "toLowerCase_js Undefined = Inl TypeError"
| "toLowerCase_js Null = Inl TypeError"

fun replace_Level_js :: "jsval \<Rightarrow> error + string" where
  "replace_Level_js (Str s) = Inr (replaceAll ''-Level'' [] s)"
| "replace_Level_js Undefined = Inl TypeError"
| "replace_Level_js Null = Inl TypeError"

fun match_d34_js :: "jsval \<Rightarrow> error + string option" where
  "match_d34_js (Str s) = Inr (regex_d34 s)"
| "match_d34_js Undefined = Inl TypeError"
| "match_d34_js Null = Inl TypeError"

text \<open>\<^verbatim>\<open>match[1]\<close>, the group of a match result that may be \<^verbatim>\<open>null\<close>.\<close>

fun group1_js :: "string option \<Rightarrow> error + string" where
  "group1_js None = Inl TypeError"
| "group1_js (Some m) = Inr m"

text \<open>\<^verbatim>\<open>a || b\<close>, and \<^verbatim>\<open>xs[i]\<close> on an array of strings (\<^verbatim>\<open>undefined\<close> out of range).\<close>

definition or_js :: "jsval \<Rightarrow> jsval \<Rightarrow> jsval" where
  "or_js a b = (if truthy a then a else b)"

definition at_js :: "string list \<Rightarrow> nat \<Rightarrow> jsval" where
  "at_js xs i = (if i < length xs then Str (xs ! i) else Undefined)"

text \<open>\<^verbatim>\<open>xs.forEach(f)\<close> with a callback that may throw, the state being what it mutates.\<close>

fun forEach_js :: "('s \<Rightarrow> 'a \<Rightarrow> error + 's) \<Rightarrow> 's \<Rightarrow> 'a list \<Rightarrow> error + 's" where
  "forEach_js f s [] = Inr s"
| "forEach_js f s (x # xs) = bindE (f s x) (\<lambda>s'. forEach_js f s' xs)"

subsection \<open>\<^verbatim>\<open>utils\<close>\<close>

text \<open>
  \<open>cleanJoin_js\<close>: the callback reads \<^verbatim>\<open>cleanParts[cleanParts.length - 1]\<close> and calls
  \<^verbatim>\<open>toLowerCase\<close> on it, behind \<^verbatim>\<open>cleanParts.length === 0 ||\<close>. \<open>kept\<close> is the array
  \<^verbatim>\<open>cleanParts\<close> built so far.
\<close>

definition cleanJoin_each_js :: "string list \<Rightarrow> jsval \<Rightarrow> error + string list" where
  "cleanJoin_each_js kept p =
     (let part = trim (String_js p)
      in if part = [] then Inr kept
         else bindE (if length kept = 0 then Inr True
                     else bindE (toLowerCase_js (at_js kept (length kept - 1)))
                            (\<lambda>l. Inr (toLowerCase part \<noteq> l)))
                (\<lambda>push. Inr (if push then kept @ [part] else kept)))"

definition cleanJoin_js :: "jsval list \<Rightarrow> error + string" where
  "cleanJoin_js parts =
     bindE (forEach_js cleanJoin_each_js [] (filter truthy parts))
       (\<lambda>kept. Inr (join '' '' kept))"

text \<open>
  \<open>mapResolution_js\<close>: \<^verbatim>\<open>match[1]\<close> stands behind \<^verbatim>\<open>if (!match) return null\<close>. The
  label is a value, \<^verbatim>\<open>null\<close> or a string.
\<close>

fun labelValue :: "string option \<Rightarrow> jsval" where
  "labelValue None = Null"
| "labelValue (Some l) = Str l"

definition mapResolution_js :: "jsval \<Rightarrow> error + jsval" where
  "mapResolution_js res =
     (if \<not> truthy res then Inr Null
      else let match = regex_d34 (String_js res)
           in if match = None then Inr Null
              else bindE (group1_js match)
                     (\<lambda>m. Inr (case parseInt m of
                                  None \<Rightarrow> Null
                                | Some hRes \<Rightarrow> labelValue (mapResolution_label hRes))))"

subsection \<open>\<^verbatim>\<open>reactiveLogic\<close> on the document\<close>











subsection \<open>\<^verbatim>\<open>populateForm\<close> on the product\<close>

text \<open>
  The product has its parts or lacks them; each block of \<^verbatim>\<open>populateForm\<close> stands
  behind \<^verbatim>\<open>if (product.pantalla)\<close> and the like, and the result is the full names that
  were written. The local \<^verbatim>\<open>mapResolution\<close> calls \<^verbatim>\<open>res.match\<close> on the value itself,
  behind \<^verbatim>\<open>if (!res) return null\<close>; the inline duplicate suppression calls
  \<^verbatim>\<open>p.toLowerCase()\<close> on what \<^verbatim>\<open>filter(Boolean)\<close> has left. The blocks for storage
  and memory call no method on a field.
\<close>

definition mapResolution_local_js :: "jsval \<Rightarrow> error + jsval" where
  "mapResolution_local_js res =
     (if \<not> truthy res then Inr Null
      else bindE (match_d34_js res) (\<lambda>match.
           if match = None then Inr Null
           else bindE (group1_js match)
                  (\<lambda>m. Inr (case parseInt m of
                               None \<Rightarrow> Null
                             | Some hRes \<Rightarrow> labelValue (mapResolution_label hRes)))))"

definition inlineDedup_each_js :: "string list \<Rightarrow> jsval \<Rightarrow> error + string list" where
  "inlineDedup_each_js kept p =
     bindE (if length kept = 0 then Inr True
            else bindE (toLowerCase_js p) (\<lambda>a.
                 bindE (toLowerCase_js (at_js kept (length kept - 1))) (\<lambda>b. Inr (a \<noteq> b))))
       (\<lambda>push. Inr (if push then kept @ [String_js p] else kept))"

definition inlineDedupJoin_js :: "jsval list \<Rightarrow> error + string" where
  "inlineDedupJoin_js parts =
     bindE (forEach_js inlineDedup_each_js [] (filter truthy parts))
       (\<lambda>kept. Inr (join '' '' kept))"

definition populateForm_screen_js :: "pantalla \<Rightarrow> error + string" where
  "populateForm_screen_js p =
     bindE (mapResolution_local_js (resolucion p)) (\<lambda>resLabel.
       let parts = [Str (if truthyNum (diagonal_pulgadas p)
                         then templateNum (diagonal_pulgadas p) @ [CHR 0x22] else [])];
           parts = (if truthy resLabel then parts @ [resLabel] else parts)
       in bindE (if truthy (tipo_hd p)
                 then (if \<not> truthy resLabel then Inr True
                       else bindE (toLowerCase_js (tipo_hd p)) (\<lambda>h.
                            bindE (toLowerCase_js resLabel) (\<lambda>l. Inr (h \<noteq> l))))
                 else Inr False)
            (\<lambda>pushHd.
               let parts = (if pushHd then parts @ [tipo_hd p] else parts)
               in bindE (if truthy (tipo p)
                         then bindE (replace_Level_js (tipo p)) (\<lambda>s. Inr (parts @ [Str s]))
                         else Inr parts)
                    (\<lambda>parts.
                       let parts = (if truthyNum (tasa_refresco_hz p)
                                    then parts @ [Str (templateNum (tasa_refresco_hz p) @ ''Hz'')]
                                    else parts)
                       in Inr (filterJoin parts))))"

definition populateForm_discrete_js :: "tarjeta_grafica \<Rightarrow> error + string option" where
  "populateForm_discrete_js g =
     (if tiene_dedicada g
      then
        let brand = or_js (marca_dedicada g) (Str []);
            model = or_js (modelo_dedicado g) (Str []);
            parts = []
        in bindE (if truthy brand
                  then bindE (toLowerCase_js model) (\<lambda>m.
                       bindE (toLowerCase_js brand) (\<lambda>b. Inr (\<not> js_includes m b)))
                  else Inr False)
             (\<lambda>pushBrand.
                let parts = (if pushBrand then parts @ [brand] else parts);
                    parts = parts @ [model];
                    parts = parts @ [Str (if truthyNum (memoria_dedicada_gb g)
                                          then templateNum (memoria_dedicada_gb g) @ ''GB''
                                          else [])];
                    parts = parts @ [tipo_memoria_dedicada g]
                in bindE (inlineDedupJoin_js parts) (\<lambda>name. Inr (Some name)))
      else Inr None)"

definition populateForm_onboard_js :: "tarjeta_grafica \<Rightarrow> error + string" where
  "populateForm_onboard_js g =
     (let iBrand = or_js (marca_integrada g) (Str []);
          iModel = or_js (modelo_integrado g) (Str []);
          iFamily = or_js (familia_integrada g) (Str []);
          iParts = []
      in bindE (if truthy iBrand
                then bindE (toLowerCase_js iModel) (\<lambda>m.
                     bindE (toLowerCase_js iBrand) (\<lambda>b. Inr (\<not> js_includes m b)))
                else Inr False)
           (\<lambda>pushBrand.
              let iParts = (if pushBrand then iParts @ [iBrand] else iParts);
                  iParts = iParts @ [iModel]
              in bindE (if truthy iFamily
                        then bindE (toLowerCase_js iModel) (\<lambda>m.
                             bindE (toLowerCase_js iFamily) (\<lambda>f. Inr (\<not> js_includes m f)))
                        else Inr False)
                   (\<lambda>pushFamily.
                      let iParts = (if pushFamily then iParts @ [iFamily] else iParts);
                          iParts = iParts @ [Str (if truthyNum (memoria_integrada_gb g)
                                                  then templateNum (memoria_integrada_gb g) @ ''GB''
                                                  else [])]
                      in inlineDedupJoin_js iParts)))"




section \<open>Properties of the string primitives\<close>

lemma trim_Nil [simp]: "trim [] = []"
  by (simp add: trim_def)

lemma join_Cons:
  "join sep (x # xs) = (if xs = [] then x else x @ sep @ join sep xs)"
  by (cases xs) simp_all

section \<open>Properties of \<open>cleanJoin\<close>\<close>

lemma cleanJoin_each_blank:
  "trim (String_js p) = [] \<Longrightarrow> cleanJoin_each acc p = acc"
  by (simp add: cleanJoin_each_def)

lemma cleanJoin_each_first:
  "trim s \<noteq> [] \<Longrightarrow> cleanJoin_each [] (Str s) = [trim s]"
  by (simp add: cleanJoin_each_def)

lemma cleanJoin_each_keep:
  "trim s \<noteq> [] \<Longrightarrow> toLowerCase (trim s) \<noteq> toLowerCase a
     \<Longrightarrow> cleanJoin_each (acc @ [a]) (Str s) = acc @ [a, trim s]"
  by (simp add: cleanJoin_each_def)

lemma cleanJoin_each_drop:
  "trim s \<noteq> [] \<Longrightarrow> toLowerCase (trim s) = toLowerCase a
     \<Longrightarrow> cleanJoin_each (acc @ [a]) (Str s) = acc @ [a]"
  by (simp add: cleanJoin_each_def)

lemma foldl_cleanJoin_each_snoc:
  "foldl cleanJoin_each (acc @ [a]) (filter truthy ps)
     = acc @ dedupAdjacent (a # presentTokens ps)"
proof (induction ps arbitrary: acc a)
  case Nil
  show ?case by simp
next
  case (Cons p ps)
  show ?case
  proof (cases p)
    case Undefined
    with Cons show ?thesis by simp
  next
    case Null
    with Cons show ?thesis by simp
  next
    case (Str s)
    show ?thesis
    proof (cases "trim s = []")
      case True
      with Str Cons show ?thesis
        by (simp add: cleanJoin_each_blank)
    next
      case False
      then have s: "s \<noteq> []" by auto
      show ?thesis
      proof (cases "toLowerCase (trim s) = toLowerCase a")
        case True
        with False s Str Cons show ?thesis
          by (simp add: cleanJoin_each_drop)
      next
        case neq: False
        have "foldl cleanJoin_each ((acc @ [a]) @ [trim s]) (filter truthy ps)
                = (acc @ [a]) @ dedupAdjacent (trim s # presentTokens ps)"
          by (rule Cons.IH)
        with neq False s Str show ?thesis
          by (simp add: cleanJoin_each_keep)
      qed
    qed
  qed
qed

lemma cleanParts_dedupAdjacent:
  "cleanParts parts = dedupAdjacent (presentTokens parts)"
  unfolding cleanParts_def
proof (induction parts)
  case Nil
  show ?case by simp
next
  case (Cons p ps)
  show ?case
  proof (cases p)
    case Undefined
    with Cons show ?thesis by simp
  next
    case Null
    with Cons show ?thesis by simp
  next
    case (Str s)
    show ?thesis
    proof (cases "trim s = []")
      case True
      with Str Cons show ?thesis
        by (simp add: cleanJoin_each_blank)
    next
      case False
      then have s: "s \<noteq> []" by auto
      have "foldl cleanJoin_each ([] @ [trim s]) (filter truthy ps)
              = [] @ dedupAdjacent (trim s # presentTokens ps)"
        by (rule foldl_cleanJoin_each_snoc)
      with False s Str show ?thesis
        by (simp add: cleanJoin_each_first)
    qed
  qed
qed

lemma presentTokens_nonempty: "t \<in> set (presentTokens ps) \<Longrightarrow> t \<noteq> []"
  by (induction ps rule: presentTokens.induct) (auto split: if_splits)

lemma dedupAdjacent_Nil_iff [simp]: "dedupAdjacent xs = [] \<longleftrightarrow> xs = []"
  by (induction xs rule: dedupAdjacent.induct) auto

lemma hd_dedupAdjacent: "dedupAdjacent (x # xs) = x # tl (dedupAdjacent (x # xs))"
  by (induction xs arbitrary: x) auto

lemma subseq_dedupAdjacent: "subseq (dedupAdjacent xs) xs"
proof (induction xs rule: dedupAdjacent.induct)
  case 1
  show ?case by simp
next
  case (2 x)
  show ?case by simp
next
  case (3 x y ys)
  show ?case
  proof (cases "toLowerCase y = toLowerCase x")
    case True
    obtain t where t: "dedupAdjacent (x # ys) = x # t"
      using hd_dedupAdjacent by blast
    with 3 True have "subseq t ys" by simp
    then have "subseq t (y # ys)" by (rule list_emb_Cons)
    with t True show ?thesis by simp
  next
    case False
    with 3 show ?thesis by simp
  qed
qed

lemma set_dedupAdjacent_subset: "set (dedupAdjacent xs) \<subseteq> set xs"
  by (induction xs rule: dedupAdjacent.induct) auto

lemma map_toLowerCase_dedupAdjacent:
  "map toLowerCase (dedupAdjacent xs) = remdups_adj (map toLowerCase xs)"
  by (induction xs rule: dedupAdjacent.induct) auto

lemma join_space_Nil_iff:
  "[] \<notin> set xs \<Longrightarrow> join sep xs = [] \<longleftrightarrow> xs = []"
  by (cases xs) (auto simp: join_Cons)

lemma cleanJoin_empty_iff: "cleanJoin parts = [] \<longleftrightarrow> presentTokens parts = []"
proof -
  have "[] \<notin> set (dedupAdjacent (presentTokens parts))"
    using set_dedupAdjacent_subset [of "presentTokens parts"] presentTokens_nonempty [of "[]" parts]
    by auto
  then show ?thesis
    by (simp add: cleanJoin_def cleanParts_dedupAdjacent join_space_Nil_iff)
qed

section \<open>Properties of the regular expression and of \<open>parseInt\<close>\<close>

lemma isDigit_facts:
  "isDigit c \<Longrightarrow> \<not> isWhiteSpace c \<and> c \<noteq> CHR ''+'' \<and> c \<noteq> CHR ''-''
     \<and> c \<noteq> CHR ''x'' \<and> c \<noteq> CHR ''X''
     \<and> isRadixDigit 10 c \<and> digitValue c = Some (of_char c - 48)"
  by (auto simp: isDigit_def isWhiteSpace_def isRadixDigit_def digitValue_def Let_def)

lemma digitsAt_Cons_Suc [simp]: "digitsAt (c # cs) (Suc j) k = digitsAt cs j k"
  by (simp add: digitsAt_def)

lemma match_d34_at_None_iff: "match_d34_at s = None \<longleftrightarrow> \<not> digitsAt s 0 3"
  by (cases s rule: match_d34_at.cases)
     (auto simp: digitsAt_def numeral_3_eq_3 split: list.splits)

lemma match_d34_at_Some:
  "digitsAt s 0 3 \<Longrightarrow> match_d34_at s = Some (take (if digitsAt s 0 4 then 4 else 3) s)"
  by (cases s rule: match_d34_at.cases)
     (auto simp: digitsAt_def numeral_3_eq_3 eval_nat_numeral split: list.splits)

lemma regex_d34_None_iff: "regex_d34 s = None \<longleftrightarrow> (\<forall>j. \<not> digitsAt s j 3)"
proof (induction s)
  case Nil
  show ?case by (simp add: digitsAt_def)
next
  case (Cons c cs)
  have "(\<forall>j. \<not> digitsAt (c # cs) j 3)
          \<longleftrightarrow> \<not> digitsAt (c # cs) 0 3 \<and> (\<forall>j. \<not> digitsAt cs j 3)"
  proof
    assume a: "\<forall>j. \<not> digitsAt (c # cs) j 3"
    then have "\<not> digitsAt (c # cs) 0 3" by blast
    moreover have "\<forall>j. \<not> digitsAt cs j 3"
    proof
      fix j
      from a have "\<not> digitsAt (c # cs) (Suc j) 3" by blast
      then show "\<not> digitsAt cs j 3" by simp
    qed
    ultimately show "\<not> digitsAt (c # cs) 0 3 \<and> (\<forall>j. \<not> digitsAt cs j 3)" by blast
  next
    assume a: "\<not> digitsAt (c # cs) 0 3 \<and> (\<forall>j. \<not> digitsAt cs j 3)"
    show "\<forall>j. \<not> digitsAt (c # cs) j 3"
    proof
      fix j
      show "\<not> digitsAt (c # cs) j 3"
        using a by (cases j) simp_all
    qed
  qed
  with Cons show ?case
    by (simp add: match_d34_at_None_iff [symmetric] split: option.splits)
qed

lemma regex_d34_first:
  "digitsAt s i 3 \<Longrightarrow> (\<forall>j<i. \<not> digitsAt s j 3)
     \<Longrightarrow> regex_d34 s = Some (take (if digitsAt s i 4 then 4 else 3) (drop i s))"
proof (induction s arbitrary: i)
  case Nil
  then show ?case by (simp add: digitsAt_def)
next
  case (Cons c cs)
  show ?case
  proof (cases i)
    case 0
    with Cons.prems(1) have "digitsAt (c # cs) 0 3" by simp
    from match_d34_at_Some [OF this] 0 show ?thesis by simp
  next
    case (Suc k)
    with Cons.prems have k: "digitsAt cs k 3" and none: "\<not> digitsAt (c # cs) 0 3"
      and before: "\<forall>j<k. \<not> digitsAt cs j 3"
      by auto
    from none have "match_d34_at (c # cs) = None"
      by (simp add: match_d34_at_None_iff)
    with Cons.IH [OF k before] Suc show ?thesis by simp
  qed
qed

lemma isDigit_digitValue: "isDigit c \<Longrightarrow> digitValue c = Some (of_char c - 48)"
  by (simp add: isDigit_facts)

lemma isDigit_radix10: "isDigit c \<Longrightarrow> isRadixDigit 10 c"
  by (simp add: isDigit_facts)

lemma not_isDigit_literals:
  "\<not> isDigit CHR ''-''" "\<not> isDigit CHR ''+''" "\<not> isDigit CHR ''x''" "\<not> isDigit CHR ''X''"
  by (simp_all add: isDigit_def Let_def)

lemma foldl_digitValue:
  "list_all isDigit ds \<Longrightarrow>
     foldl (\<lambda>a c. a * 10 + (case digitValue c of None \<Rightarrow> 0 | Some d \<Rightarrow> d)) a ds
       = foldl (\<lambda>a c. 10 * a + (of_char c - 48)) a ds"
proof (induction ds arbitrary: a)
  case Nil
  show ?case by simp
next
  case (Cons c cs)
  then have c: "digitValue c = Some (of_char c - 48)" and cs: "list_all isDigit cs"
    by (simp_all add: isDigit_digitValue)
  have "foldl (\<lambda>a c. a * 10 + (case digitValue c of None \<Rightarrow> 0 | Some d \<Rightarrow> d)) a (c # cs)
          = foldl (\<lambda>a c. a * 10 + (case digitValue c of None \<Rightarrow> 0 | Some d \<Rightarrow> d))
              (a * 10 + (of_char c - 48)) cs"
    by (simp add: c)
  also have "\<dots> = foldl (\<lambda>a c. 10 * a + (of_char c - 48)) (a * 10 + (of_char c - 48)) cs"
    by (rule Cons.IH [OF cs])
  also have "a * 10 + (of_char c - 48) = 10 * a + (of_char c - 48)"
    by (rule arg_cong [OF mult.commute])
  finally show ?case by simp
qed

lemma decimalValue_eq_radixValue:
  "list_all isDigit ds \<Longrightarrow> radixValue 10 ds = decimalValue ds"
  by (simp add: radixValue_def decimalValue_def foldl_digitValue)

lemma parseInt_digits:
  assumes "list_all isDigit ds" and "ds \<noteq> []"
  shows "parseInt ds = Some (int (decimalValue ds))"
proof -
  obtain c cs where ds: "ds = c # cs" using assms(2) by (cases ds) auto
  with assms(1) have c: "isDigit c" and cs: "list_all isDigit cs" by auto
  have ws: "dropWhile isWhiteSpace ds = ds"
    using c ds by (simp add: isDigit_facts)
  have nohex: "\<not> prefix ''0x'' ds" "\<not> prefix ''0X'' ds"
    using cs ds not_isDigit_literals by (cases cs; auto)+
  have all: "takeWhile (isRadixDigit 10) ds = ds"
    using assms(1) by (induction ds) (simp_all add: isDigit_radix10)
  have sgn: "\<not> prefix ''-'' ds" "\<not> prefix ''+'' ds"
    using c ds not_isDigit_literals by auto
  show ?thesis
    unfolding parseInt_def Let_def ws
    by (simp add: sgn nohex all assms(2) decimalValue_eq_radixValue [OF assms(1)])
qed

lemma digitsAt_nth: "digitsAt s j k \<Longrightarrow> n < k \<Longrightarrow> isDigit (s ! (j + n))"
  by (auto simp: digitsAt_def list_all_length)

lemma digitsAt_take_drop:
  "digitsAt s i k \<Longrightarrow> list_all isDigit (take k (drop i s)) \<and> length (take k (drop i s)) = k"
  by (auto simp: digitsAt_def)

lemma mapResolution_run:
  assumes "digitsAt s i 3" and "\<forall>j<i. \<not> digitsAt s j 3"
  shows "mapResolution (Str s)
           = mapResolution_label
               (int (decimalValue (take (if digitsAt s i 4 then 4 else 3) (drop i s))))"
proof -
  let ?m = "take (if digitsAt s i 4 then 4 else 3) (drop i s)"
  have m: "list_all isDigit ?m \<and> length ?m = (if digitsAt s i 4 then 4 else 3)"
    using assms(1) digitsAt_take_drop [of s i 4] digitsAt_take_drop [of s i 3] by simp
  then have "0 < length ?m" by (simp split: if_splits)
  then have "?m \<noteq> []" using length_greater_0_conv by blast
  with m have p: "parseInt ?m = Some (int (decimalValue ?m))"
    by (simp add: parseInt_digits)
  have r: "regex_d34 s = Some ?m"
    using assms by (rule regex_d34_first)
  have "s \<noteq> []"
    using assms(1) by (auto simp: digitsAt_def)
  then show ?thesis
    by (simp add: mapResolution_def r p)
qed

lemma mapResolution_no_run:
  assumes "\<forall>j. \<not> digitsAt s j 3"
  shows "mapResolution (Str s) = None"
proof -
  from assms have "regex_d34 s = None"
    by (rule iffD2 [OF regex_d34_None_iff])
  then show ?thesis
    by (simp add: mapResolution_def)
qed

section \<open>Properties of \<open>trim\<close>, \<open>toLowerCase\<close>, \<open>js_includes\<close> and \<open>replaceFirst\<close>\<close>

lemma trim_Nil_iff: "trim s = [] \<longleftrightarrow> list_all isWhiteSpace s"
proof
  assume "trim s = []"
  then have "dropWhile isWhiteSpace (rev (dropWhile isWhiteSpace s)) = []"
    by (simp add: trim_def)
  then have all: "\<forall>x\<in>set (dropWhile isWhiteSpace s). isWhiteSpace x"
    by (simp add: dropWhile_eq_Nil_conv)
  have "dropWhile isWhiteSpace s = []"
  proof (rule ccontr)
    assume ne: "dropWhile isWhiteSpace s \<noteq> []"
    then have "\<not> isWhiteSpace (hd (dropWhile isWhiteSpace s))"
      by (rule hd_dropWhile)
    moreover from ne have "hd (dropWhile isWhiteSpace s) \<in> set (dropWhile isWhiteSpace s)"
      by (rule hd_in_set)
    ultimately show False using all by blast
  qed
  then show "list_all isWhiteSpace s"
    by (simp add: dropWhile_eq_Nil_conv list_all_iff)
next
  assume "list_all isWhiteSpace s"
  then have d: "dropWhile isWhiteSpace s = []"
    by (simp add: dropWhile_eq_Nil_conv list_all_iff)
  show "trim s = []"
    unfolding trim_def d by simp
qed

lemma trim_id:
  assumes "s \<noteq> []" and "\<not> isWhiteSpace (hd s)" and "\<not> isWhiteSpace (last s)"
  shows "trim s = s"
proof -
  from assms(1,2) have 1: "dropWhile isWhiteSpace s = s"
    by (cases s) simp_all
  from assms(1,3) have 2: "dropWhile isWhiteSpace (rev s) = rev s"
    by (cases "rev s") (simp_all add: last_rev [symmetric] hd_rev)
  show ?thesis
    by (simp add: trim_def 1 2)
qed

lemma isWhiteSpace_lowerChar [simp]: "isWhiteSpace (lowerChar c) = isWhiteSpace c"
  by (auto simp: isWhiteSpace_def lowerChar_def Let_def)

lemma list_all_isWhiteSpace_toLowerCase [simp]:
  "list_all isWhiteSpace (toLowerCase s) = list_all isWhiteSpace s"
  by (induction s) (simp_all add: toLowerCase_def)

lemma toLowerCase_Nil_iff [simp]: "toLowerCase s = [] \<longleftrightarrow> s = []"
  by (simp add: toLowerCase_def)

lemma js_includes_sublist: "js_includes s t \<longleftrightarrow> sublist t s"
  by (induction s) (simp_all add: sublist_Cons_right)

lemma js_includes_set: "js_includes s t \<Longrightarrow> set t \<subseteq> set s"
  by (simp add: js_includes_sublist set_mono_sublist)

lemma js_includes_blank:
  assumes "js_includes (toLowerCase g) (toLowerCase f)" and "trim g = []"
  shows "trim f = []"
proof -
  from assms(2) have "list_all isWhiteSpace (toLowerCase g)"
    by (simp add: trim_Nil_iff)
  with js_includes_set [OF assms(1)] have "list_all isWhiteSpace (toLowerCase f)"
    by (auto simp: list_all_iff)
  then show ?thesis
    by (simp add: trim_Nil_iff)
qed

lemma replaceFirst_skip:
  "p \<notin> set a \<Longrightarrow> replaceFirst (p # ps) rep (a @ rest) = a @ replaceFirst (p # ps) rep rest"
  by (induction a) auto

section \<open>Properties of \<open>cleanJoin\<close> on concatenated arrays\<close>

lemma presentTokens_append:
  "presentTokens (xs @ ys) = presentTokens xs @ presentTokens ys"
  by (induction xs rule: presentTokens.induct) simp_all

lemma presentTokens_blank:
  "trim (orEmpty v) = [] \<Longrightarrow> presentTokens (v # ps) = presentTokens ps"
  by (cases v) simp_all

lemma cleanJoin_presentTokens_cong:
  "presentTokens xs = presentTokens ys \<Longrightarrow> cleanJoin xs = cleanJoin ys"
  by (simp add: cleanJoin_def cleanParts_dedupAdjacent)

section \<open>Properties of the number texts\<close>

lemma of_char_digitChar: "d < 10 \<Longrightarrow> of_char (digitChar d) = (48 + d :: nat)"
  by (simp add: digitChar_def)

lemma isDigit_digitChar: "d < 10 \<Longrightarrow> isDigit (digitChar d)"
  by (simp add: isDigit_def of_char_digitChar)

lemma digitChar_eq_zero_iff: "d < 10 \<Longrightarrow> digitChar d = CHR ''0'' \<longleftrightarrow> d = 0"
proof -
  assume d: "d < 10"
  have "digitChar d = CHR ''0'' \<longleftrightarrow> (of_char (digitChar d) :: nat) = of_char CHR ''0''"
    by (simp only: of_char_eq_iff)
  also have "\<dots> \<longleftrightarrow> d = 0"
    by (simp add: of_char_digitChar [OF d])
  finally show ?thesis .
qed

lemma zero_eq_digitChar_iff: "d < 10 \<Longrightarrow> CHR ''0'' = digitChar d \<longleftrightarrow> d = 0"
  using digitChar_eq_zero_iff [of d] by auto

lemma digits10_small: "n < 10 \<Longrightarrow> digits10 n = [digitChar n]"
  by (simp add: digits10.simps)

lemma digits10_large: "\<not> n < 10 \<Longrightarrow> digits10 n = digits10 (n div 10) @ [digitChar (n mod 10)]"
  by (subst digits10.simps) simp

lemma digits10_nonempty [simp]: "digits10 n \<noteq> []"
  by (cases "n < 10") (simp_all add: digits10_small digits10_large)

lemma digits10_all_digits: "list_all isDigit (digits10 n)"
proof (induction n rule: digits10.induct)
  case (1 n)
  show ?case
  proof (cases "n < 10")
    case True
    then show ?thesis by (simp add: digits10_small isDigit_digitChar)
  next
    case False
    with 1 show ?thesis by (simp add: digits10_large isDigit_digitChar)
  qed
qed

lemma decimalValue_snoc:
  "decimalValue (ds @ [c]) = 10 * decimalValue ds + (of_char c - 48)"
  by (simp add: decimalValue_def)

lemma decimalValue_digits10: "decimalValue (digits10 n) = n"
proof (induction n rule: digits10.induct)
  case (1 n)
  show ?case
  proof (cases "n < 10")
    case True
    then show ?thesis
      by (simp add: digits10_small decimalValue_def of_char_digitChar)
  next
    case False
    with 1 have "decimalValue (digits10 (n div 10)) = n div 10" by simp
    with False show ?thesis
      by (simp add: digits10_large decimalValue_snoc of_char_digitChar)
  qed
qed

lemma parseInt_digits10: "parseInt (digits10 n) = Some (int n)"
  by (simp add: parseInt_digits digits10_all_digits decimalValue_digits10)

lemma hd_digits10_isDigit: "isDigit (hd (digits10 n))"
  using digits10_all_digits [of n] digits10_nonempty [of n]
  by (cases "digits10 n") simp_all

lemma isDigit_not_isWhiteSpace: "isDigit c \<Longrightarrow> \<not> isWhiteSpace c"
  by (simp add: isDigit_facts)

lemma toFixed1_nonneg:
  assumes "0 \<le> x"
  shows "toFixed1 (Some x)
           = digits10 (nat \<lfloor>x * 10 + 1 / 2\<rfloor> div 10)
               @ ''.'' @ [digitChar (nat \<lfloor>x * 10 + 1 / 2\<rfloor> mod 10)]"
proof -
  define t where "t = nat \<lfloor>x * 10 + 1 / 2\<rfloor>"
  from assms have ax: "\<bar>x\<bar> = x" and nn: "\<not> x < 0" by simp_all
  have unf: "toFixed1 (Some x)
               = (let m = digits10 t;
                      m = (if length m \<le> 1 then ''0'' @ m else m);
                      k = length m
                  in take (k - 1) m @ ''.'' @ drop (k - 1) m)"
    unfolding toFixed1.simps ax t_def using nn by (simp add: Let_def)
  have "(let m = digits10 t;
             m = (if length m \<le> 1 then ''0'' @ m else m);
             k = length m
         in take (k - 1) m @ ''.'' @ drop (k - 1) m)
          = digits10 (t div 10) @ ''.'' @ [digitChar (t mod 10)]"
  proof (cases "t < 10")
    case True
    have z: "digits10 0 = ''0''" by code_simp
    from True show ?thesis
      by (simp add: Let_def digits10_small [OF True] z)
  next
    case False
    have len: "length (digits10 (t div 10)) \<noteq> 0"
      by simp
    from False len show ?thesis
      by (simp add: Let_def digits10_large [OF False])
  qed
  with unf show ?thesis
    unfolding t_def by simp
qed

lemma floor_tenths1024:
  "nat \<lfloor>rat_of_int (int n) / rat_of_int 1024 * 10 + 1 / 2\<rfloor> = tenths1024 n"
proof -
  have "rat_of_int (int n) / rat_of_int 1024 * 10 + 1 / 2
          = rat_of_int (int (10 * n + 512)) / rat_of_int 1024"
    by (simp add: field_simps)
  then have "\<lfloor>rat_of_int (int n) / rat_of_int 1024 * 10 + 1 / 2\<rfloor>
          = int (10 * n + 512) div 1024"
    by (simp only: floor_divide_of_int_eq)
  then have "nat \<lfloor>rat_of_int (int n) / rat_of_int 1024 * 10 + 1 / 2\<rfloor>
          = nat (int (10 * n + 512) div 1024)"
    by (rule arg_cong)
  also have "\<dots> = (10 * n + 512) div 1024"
    by (simp add: nat_div_distrib)
  finally show ?thesis
    by (simp only: tenths1024_def)
qed

lemma toFixed1_div_1024:
  "toFixed1 (num_div (Some (int n)) 1024)
     = digits10 (tenths1024 n div 10) @ ''.'' @ [digitChar (tenths1024 n mod 10)]"
proof -
  have nonneg: "0 \<le> rat_of_int (int n) / rat_of_int 1024"
    by simp
  show ?thesis
    unfolding num_div.simps toFixed1_nonneg [OF nonneg] floor_tenths1024 ..
qed

lemma not_dot_digit: "isDigit c \<Longrightarrow> c \<noteq> CHR ''.''"
  by (auto simp: isDigit_def Let_def)

lemma replaceFirst_dot_zero:
  assumes "d < 10" and "list_all isDigit a"
  shows "replaceFirst ''.0'' [] (a @ ''.'' @ [digitChar d] @ ''TB'')
           = a @ (if d = 0 then [] else ''.'' @ [digitChar d]) @ ''TB''"
proof -
  from assms(2) have "CHR ''.'' \<notin> set a"
    using not_dot_digit by (auto simp: list_all_iff)
  then have "replaceFirst ''.0'' [] (a @ ''.'' @ [digitChar d] @ ''TB'')
               = a @ replaceFirst ''.0'' [] (''.'' @ [digitChar d] @ ''TB'')"
    by (rule replaceFirst_skip)
  moreover have "replaceFirst ''.0'' [] (''.'' @ [digitChar d] @ ''TB'')
                   = (if d = 0 then [] else ''.'' @ [digitChar d]) @ ''TB''"
    using not_dot_digit [OF isDigit_digitChar [OF assms(1)]] digitChar_eq_zero_iff [OF assms(1)]
      zero_eq_digitChar_iff [OF assms(1)]
    by auto
  ultimately show ?thesis by simp
qed

lemma capStr_TB:
  "replaceFirst ''.0'' [] (toFixed1 (num_div (Some (int n)) 1024) @ ''TB'') = capacityTB n"
proof -
  let ?t = "tenths1024 n"
  have d: "?t mod 10 < 10" by simp
  have "replaceFirst ''.0'' [] ((digits10 (?t div 10) @ ''.'' @ [digitChar (?t mod 10)]) @ ''TB'')
          = replaceFirst ''.0'' [] (digits10 (?t div 10) @ ''.'' @ [digitChar (?t mod 10)] @ ''TB'')"
    by simp
  also have "\<dots> = digits10 (?t div 10)
                     @ (if ?t mod 10 = 0 then [] else ''.'' @ [digitChar (?t mod 10)]) @ ''TB''"
    by (rule replaceFirst_dot_zero [OF d digits10_all_digits])
  finally show ?thesis
    unfolding toFixed1_div_1024 capacityTB_def Let_def digits10_small [OF d] .
qed

lemma updateStorage_capStr_TB:
  assumes "1024 \<le> n"
  shows "updateStorage_capStr (digits10 n) = capacityTB n"
proof -
  from assms have "num_ge (Some (int n)) 1024" by simp
  then show ?thesis
    unfolding updateStorage_capStr_def parseInt_digits10 capStr_TB by simp
qed

lemma updateStorage_capStr_GB:
  "n < 1024 \<Longrightarrow> updateStorage_capStr (digits10 n) = digits10 n @ ''GB''"
  by (simp add: updateStorage_capStr_def parseInt_digits10)

lemma populateForm_capacityStr_TB:
  assumes "1024 \<le> n"
  shows "populateForm_capacityStr (Some (int n)) = capacityTB n"
proof -
  from assms have "num_ge (Some (int n)) 1024" and "truthyNum (Some (int n))" by simp_all
  then show ?thesis
    unfolding populateForm_capacityStr_def capStr_TB by simp
qed

lemma populateForm_capacityStr_GB:
  "0 < n \<Longrightarrow> n < 1024 \<Longrightarrow> populateForm_capacityStr (Some (int n)) = digits10 n @ ''GB''"
  by (simp add: populateForm_capacityStr_def numberToString_def)

lemma tenths1024_nearest:
  "\<bar>(of_nat n / 1024 :: rat) - of_nat (tenths1024 n) / 10\<bar> \<le> 1 / 20"
proof -
  let ?t = "tenths1024 n"
  have lo: "1024 * ?t \<le> 10 * n + 512"
    unfolding tenths1024_def by simp
  have hi: "10 * n + 512 < 1024 * ?t + 1024"
    unfolding tenths1024_def
    using div_mult_mod_eq [of "10 * n + 512" 1024] mod_less_divisor [of 1024 "10 * n + 512"]
    by linarith
  have a: "(of_nat (1024 * ?t) :: rat) \<le> of_nat (10 * n + 512)"
    using lo by (simp only: of_nat_le_iff)
  have b: "(of_nat (10 * n + 512) :: rat) < of_nat (1024 * ?t + 1024)"
    using hi by (simp only: of_nat_less_iff)
  from a b show ?thesis
    by (simp add: abs_le_iff field_simps)
qed

section \<open>Evaluating digit texts\<close>

lemma digitChar_literals:
  "digitChar 0 = CHR ''0''" "digitChar 1 = CHR ''1''" "digitChar 2 = CHR ''2''"
  "digitChar 3 = CHR ''3''" "digitChar 4 = CHR ''4''" "digitChar 5 = CHR ''5''"
  "digitChar 6 = CHR ''6''" "digitChar 7 = CHR ''7''" "digitChar 8 = CHR ''8''"
  "digitChar 9 = CHR ''9''" "digitChar (Suc 0) = CHR ''1''"
  by code_simp+

lemma digits10_numeral:
  "digits10 (numeral k) =
     (if numeral k < (10::nat) then [digitChar (numeral k)]
      else digits10 (numeral k div 10) @ [digitChar (numeral k mod 10)])"
  by (rule digits10.simps)

lemma digits10_0_1: "digits10 0 = ''0''" "digits10 1 = ''1''" "digits10 (Suc 0) = ''1''"
  by (simp_all add: digits10.simps digitChar_literals)

lemmas digits10_eval = digits10_numeral digits10_0_1 digitChar_literals

lemma numberToString_nonempty [simp]: "numberToString n \<noteq> []"
  by (simp add: numberToString_def)

lemma templateNum_nonempty [simp]: "templateNum x \<noteq> []"
  by (cases x) simp_all

section \<open>The first token of a joined name\<close>

lemma cleanJoin_prefix:
  assumes "trim t = t" and "t \<noteq> []"
  shows "prefix t (cleanJoin (Str t # ps))"
proof -
  from assms have "presentTokens (Str t # ps) = t # presentTokens ps"
    by simp
  then have "cleanJoin (Str t # ps) = join '' '' (dedupAdjacent (t # presentTokens ps))"
    by (simp add: cleanJoin_def cleanParts_dedupAdjacent)
  also have "\<dots> = join '' '' (t # tl (dedupAdjacent (t # presentTokens ps)))"
    using hd_dedupAdjacent [of t "presentTokens ps"] by simp
  finally show ?thesis
    by (simp add: join_Cons)
qed

lemma filterJoin_prefix: "t \<noteq> [] \<Longrightarrow> prefix t (filterJoin (Str t # ps))"
  by (simp add: filterJoin_def join_Cons)

lemma trim_digits10_unit:
  assumes "\<not> isWhiteSpace c"
  shows "trim (digits10 n @ mid @ [c]) = digits10 n @ mid @ [c]"
proof (rule trim_id)
  show "digits10 n @ mid @ [c] \<noteq> []" by simp
  have "hd (digits10 n @ mid @ [c]) = hd (digits10 n)" by simp
  then show "\<not> isWhiteSpace (hd (digits10 n @ mid @ [c]))"
    using hd_digits10_isDigit [of n] isDigit_not_isWhiteSpace by simp
  have "last (digits10 n @ mid @ [c]) = c" by simp
  with assms show "\<not> isWhiteSpace (last (digits10 n @ mid @ [c]))" by simp
qed

lemma not_isWhiteSpace_B: "\<not> isWhiteSpace CHR ''B''"
  by (simp add: isWhiteSpace_def)

lemma trim_capacityTB: "trim (capacityTB n) = capacityTB n"
proof -
  obtain mid where "capacityTB n = digits10 (tenths1024 n div 10) @ mid @ [CHR ''B'']"
    by (simp add: capacityTB_def Let_def)
  then show ?thesis
    by (simp only: trim_digits10_unit [OF not_isWhiteSpace_B])
qed

lemma trim_digits10_GB: "trim (digits10 n @ ''GB'') = digits10 n @ ''GB''"
  using trim_digits10_unit [OF not_isWhiteSpace_B, of n "''G''"] by simp

lemma capacityTB_nonempty [simp]: "capacityTB n \<noteq> []"
  by (simp add: capacityTB_def Let_def)

lemma updateStorage_capStr_cases:
  "0 < n \<Longrightarrow> updateStorage_capStr (digits10 n)
                 = (if 1024 \<le> n then capacityTB n else digits10 n @ ''GB'')"
  by (simp add: updateStorage_capStr_TB updateStorage_capStr_GB)

lemma populateForm_capacityStr_cases:
  "0 < n \<Longrightarrow> populateForm_capacityStr (Some (int n))
                 = (if 1024 \<le> n then capacityTB n else digits10 n @ ''GB'')"
  by (simp add: populateForm_capacityStr_TB populateForm_capacityStr_GB)

lemma updateStorage_prefix:
  assumes "0 < n"
  shows "prefix (updateStorage_capStr (digits10 n))
           (updateStorage (Str (digits10 n)) media nv formFactor)"
proof -
  let ?t = "updateStorage_capStr (digits10 n)"
  have "trim ?t = ?t" and "?t \<noteq> []"
    using assms by (simp_all add: updateStorage_capStr_cases trim_capacityTB trim_digits10_GB)
  then have "prefix ?t (cleanJoin (Str ?t # [Str (orEmpty media),
               Str (if nv then ''NVMe'' else []), Str (orEmpty formFactor)]))"
    by (rule cleanJoin_prefix)
  then show ?thesis
    by (simp add: updateStorage_def updateStorage_parts_def)
qed

lemma populateForm_storage_prefix:
  assumes "0 < n"
  shows "prefix (populateForm_capacityStr (Some (int n)))
           (populateForm_storageFullName (a\<lparr>capacidad_total_gb := Some (int n)\<rparr>))"
proof -
  let ?t = "populateForm_capacityStr (Some (int n))"
  have "?t \<noteq> []"
    using assms by (simp add: populateForm_capacityStr_cases)
  then have "prefix ?t (filterJoin (Str ?t # [tipo_media a,
               Str (if nvme a then ''NVMe'' else []), factor_forma_ssd a]))"
    by (rule filterJoin_prefix)
  then show ?thesis
    by (simp add: populateForm_storageFullName_def)
qed

section \<open>The token sequences of the reactive formatters\<close>





lemma updateOnboardGPU_orEmpty:
  "updateOnboardGPU b m f mem
     = updateOnboardGPU (Str (orEmpty b)) (Str (orEmpty m)) (Str (orEmpty f)) (Str (orEmpty mem))"
  by (simp add: updateOnboardGPU_def updateOnboardGPU_parts_def)






lemma updateOnboardGPU_tokens:
  "updateOnboardGPU (Str b) (Str m) (Str f) (Str mem)
     = cleanJoin ((if js_includes (toLowerCase m) (toLowerCase b) then [] else tok b b)
         @ tok m m
         @ (if js_includes (toLowerCase m) (toLowerCase f) then [] else tok f f)
         @ tok mem (mem @ ''GB''))"
  unfolding updateOnboardGPU_def
  by (rule cleanJoin_presentTokens_cong)
     (simp add: updateOnboardGPU_parts_def tok_def presentTokens_append)

lemma updateStorage_capStr_Nil [simp]: "updateStorage_capStr [] = []"
  by (simp add: updateStorage_capStr_def)



section \<open>The refresh-rate token of \<open>updateScreen\<close>\<close>

lemma parseInt_Nil [simp]: "parseInt [] = None"
  by (simp add: parseInt_def)

lemma updateScreen_refresh_pushed:
  assumes "orEmpty rf \<noteq> []" and "num_gt (parseInt (orEmpty rf)) 60"
  shows "Str (orEmpty rf @ ''Hz'') \<in> set (updateScreen_parts d r h p rf t)"
  using assms by (simp add: updateScreen_parts_def Let_def)

lemma updateScreen_refresh_omitted:
  assumes "\<not> num_gt (parseInt (orEmpty rf)) 60"
  shows "updateScreen_parts d r h p rf t = updateScreen_parts d r h p Undefined t"
  using assms by (simp add: updateScreen_parts_def Let_def)

lemma inlineDedup_each_trimmed:
  "trim s = s \<Longrightarrow> s \<noteq> [] \<Longrightarrow> inlineDedup_each acc (Str s) = cleanJoin_each acc (Str s)"
  by (simp add: inlineDedup_each_def cleanJoin_each_def)

lemma inlineDedupJoin_trimmed:
  assumes "list_all (\<lambda>v. trim (orEmpty v) = orEmpty v) parts"
  shows "inlineDedupJoin parts = cleanJoin parts"
proof -
  have "foldl inlineDedup_each acc (filter truthy parts)
          = foldl cleanJoin_each acc (filter truthy parts)" for acc
    using assms
  proof (induction parts arbitrary: acc)
    case Nil
    show ?case by simp
  next
    case (Cons v vs)
    show ?case
    proof (cases v)
      case Undefined
      with Cons show ?thesis by simp
    next
      case Null
      with Cons show ?thesis by simp
    next
      case (Str s)
      show ?thesis
      proof (cases "s = []")
        case True
        with Str Cons show ?thesis by simp
      next
        case False
        with Str Cons.prems have "inlineDedup_each acc (Str s) = cleanJoin_each acc (Str s)"
          by (simp add: inlineDedup_each_trimmed)
        with False Str Cons show ?thesis by simp
      qed
    qed
  qed
  then show ?thesis
    by (simp add: inlineDedupJoin_def cleanJoin_def cleanParts_def)
qed

section \<open>The capacity token on whole capacities\<close>

text \<open>
  For a storage capacity of \<open>n\<close> GB, a whole number that a JavaScript number holds
  exactly, given to \<open>updateStorage\<close> as its decimal text and to \<^verbatim>\<open>populateForm\<close> as
  a number: from 1024 on the capacity token is \<open>n / 1024\<close> rounded to one decimal place
  (the nearest tenth), without the decimal when it is \<open>.0\<close>, followed by \<^verbatim>\<open>TB\<close>;
  above 0 and below 1024 it is the number followed by \<^verbatim>\<open>GB\<close>. The token is the
  first token of the storage name. On any text of the form field, \<open>updateStorage\<close>
  takes for \<open>n\<close> the whole number that \<^verbatim>\<open>parseInt\<close> reads from it, and appends
  \<^verbatim>\<open>GB\<close> to the text itself when that is below 1024 or no number.
\<close>

lemma storage_capacity_token_whole:
  "(1024 \<le> n \<and> n < 2 ^ 53 \<longrightarrow>
      updateStorage_capStr (digits10 n) = capacityTB n
      \<and> populateForm_capacityStr (Some (int n)) = capacityTB n
      \<and> \<bar>(of_nat n / 1024 :: rat) - of_nat (tenths1024 n) / 10\<bar> \<le> 1 / 20)
   \<and> (0 < n \<and> n < 1024 \<longrightarrow>
      updateStorage_capStr (digits10 n) = digits10 n @ ''GB''
      \<and> populateForm_capacityStr (Some (int n)) = digits10 n @ ''GB'')
   \<and> (0 < n \<and> n < 2 ^ 53 \<longrightarrow>
      prefix (updateStorage_capStr (digits10 n))
        (updateStorage (Str (digits10 n)) media nv formFactor)
      \<and> prefix (populateForm_capacityStr (Some (int n)))
          (populateForm_storageFullName (a\<lparr>capacidad_total_gb := Some (int n)\<rparr>)))
   \<and> (parseInt capacity = Some (int n) \<and> 1024 \<le> n \<and> n < 2 ^ 53 \<longrightarrow>
      updateStorage_capStr capacity = capacityTB n)
   \<and> (capacity \<noteq> [] \<and> \<not> num_ge (parseInt capacity) 1024 \<longrightarrow>
      updateStorage_capStr capacity = capacity @ ''GB'')
   \<and> capacityTB 1024 = ''1TB''
   \<and> capacityTB 1536 = ''1.5TB''
   \<and> updateStorage (Str ''1024'') (Str ''SSD'') True (Str ''M.2'') = ''1TB SSD NVMe M.2''
   \<and> updateStorage (Str ''512'') (Str ''SSD'') False Undefined = ''512GB SSD''"
proof -
  have 1: "1024 \<le> n \<and> n < 2 ^ 53 \<longrightarrow>
      updateStorage_capStr (digits10 n) = capacityTB n
      \<and> populateForm_capacityStr (Some (int n)) = capacityTB n
      \<and> \<bar>(of_nat n / 1024 :: rat) - of_nat (tenths1024 n) / 10\<bar> \<le> 1 / 20"
    using updateStorage_capStr_TB [of n] populateForm_capacityStr_TB [of n]
      tenths1024_nearest [of n]
    by blast
  have 2: "0 < n \<and> n < 1024 \<longrightarrow>
      updateStorage_capStr (digits10 n) = digits10 n @ ''GB''
      \<and> populateForm_capacityStr (Some (int n)) = digits10 n @ ''GB''"
    using updateStorage_capStr_GB [of n] populateForm_capacityStr_GB [of n]
    by blast
  have 3: "0 < n \<and> n < 2 ^ 53 \<longrightarrow>
      prefix (updateStorage_capStr (digits10 n))
        (updateStorage (Str (digits10 n)) media nv formFactor)
      \<and> prefix (populateForm_capacityStr (Some (int n)))
          (populateForm_storageFullName (a\<lparr>capacidad_total_gb := Some (int n)\<rparr>))"
    using updateStorage_prefix [of n media nv formFactor] populateForm_storage_prefix [of n a]
    by blast
  have 8: "parseInt capacity = Some (int n) \<and> 1024 \<le> n \<and> n < 2 ^ 53 \<longrightarrow>
      updateStorage_capStr capacity = capacityTB n"
  proof
    assume a: "parseInt capacity = Some (int n) \<and> 1024 \<le> n \<and> n < 2 ^ 53"
    then have p: "parseInt capacity = Some (int n)" by (rule conjunct1)
    then have ne: "capacity \<noteq> []" by auto
    from a have ge: "num_ge (Some (int n)) 1024" by simp
    show "updateStorage_capStr capacity = capacityTB n"
      unfolding updateStorage_capStr_def p capStr_TB using ne ge by simp
  qed
  have 9: "capacity \<noteq> [] \<and> \<not> num_ge (parseInt capacity) 1024 \<longrightarrow>
      updateStorage_capStr capacity = capacity @ ''GB''"
    by (simp add: updateStorage_capStr_def)
  have 4: "capacityTB 1024 = ''1TB''"
    by (simp add: capacityTB_def tenths1024_def digits10_eval)
  have 5: "capacityTB 1536 = ''1.5TB''"
    by (simp add: capacityTB_def tenths1024_def digits10_eval)
  have 6: "updateStorage (Str ''1024'') (Str ''SSD'') True (Str ''M.2'') = ''1TB SSD NVMe M.2''"
    by code_simp
  have 7: "updateStorage (Str ''512'') (Str ''SSD'') False Undefined = ''512GB SSD''"
    by code_simp
  show ?thesis
    by (intro conjI) (rule 1, rule 2, rule 3, rule 8, rule 9, rule 4, rule 5, rule 6, rule 7)
qed

lemma storage_capacity_token_whole_example:
  "updateStorage_capStr ''1280'' = ''1.3TB''
   \<and> populateForm_capacityStr (Some 2048) = ''2TB''
   \<and> updateStorage_capStr ''768'' = ''768GB''
   \<and> populateForm_capacityStr (Some 768) = ''768GB''
   \<and> updateStorage_capStr ''1536 GB'' = ''1.5TB''
   \<and> prefix ''768GB'' (updateStorage (Str ''768'') (Str ''HDD'') False Null)"
proof -
  have d1: "digits10 1280 = ''1280''" and d2: "digits10 768 = ''768''"
    by (simp_all add: digits10_eval)
  have t1: "capacityTB 1280 = ''1.3TB''" and t2: "capacityTB 2048 = ''2TB''"
    and t3: "capacityTB 1536 = ''1.5TB''"
    by (simp_all add: capacityTB_def tenths1024_def digits10_eval)
  have h1: "1024 \<le> (1280::nat) \<and> (1280::nat) < 2 ^ 53" by simp
  have h2: "1024 \<le> (2048::nat) \<and> (2048::nat) < 2 ^ 53" by simp
  have h3: "0 < (768::nat) \<and> (768::nat) < 1024" by simp
  have h4: "0 < (768::nat) \<and> (768::nat) < 2 ^ 53" by simp
  have "parseInt ''1536 GB'' = Some 1536" by code_simp
  then have h5: "parseInt ''1536 GB'' = Some (int 1536) \<and> 1024 \<le> (1536::nat)
                   \<and> (1536::nat) < 2 ^ 53"
    by simp
  note A = storage_capacity_token_whole [where n = 1280]
  note B = storage_capacity_token_whole [where n = 2048]
  note C = storage_capacity_token_whole [where n = 768 and media = "Str ''HDD''" and nv = False
             and formFactor = Null]
  note D = storage_capacity_token_whole [where n = 1536 and capacity = "''1536 GB''"]
  have 1: "updateStorage_capStr ''1280'' = ''1.3TB''"
    using A [THEN conjunct1, THEN mp, OF h1, THEN conjunct1] d1 t1 by simp
  have 2: "populateForm_capacityStr (Some 2048) = ''2TB''"
    using B [THEN conjunct1, THEN mp, OF h2, THEN conjunct2, THEN conjunct1] t2 by simp
  note C2 = C [THEN conjunct2, THEN conjunct1, THEN mp, OF h3]
  have 3: "updateStorage_capStr ''768'' = ''768GB''"
    using C2 [THEN conjunct1] d2 by simp
  have 4: "populateForm_capacityStr (Some 768) = ''768GB''"
    using C2 [THEN conjunct2] d2 by simp
  have 5: "updateStorage_capStr ''1536 GB'' = ''1.5TB''"
    using D [THEN conjunct2, THEN conjunct2, THEN conjunct2, THEN conjunct1, THEN mp, OF h5] t3
    by simp
  have 6: "prefix ''768GB'' (updateStorage (Str ''768'') (Str ''HDD'') False Null)"
    using C [THEN conjunct2, THEN conjunct2, THEN conjunct1, THEN mp, OF h4, THEN conjunct1]
      d2 3
    by simp
  show ?thesis
    by (intro conjI) (rule 1, rule 2, rule 3, rule 4, rule 5, rule 6)
qed

section \<open>The token sequence of the integrated graphics name\<close>

text \<open>
  In \<open>updateOnboardGPU\<close> the tokens are, in this order, brand, model, family and
  memory with \<^verbatim>\<open>GB\<close>; the brand is there only if it is not a substring of the model
  ignoring case, and so is the family, both checked against the text of the model alone
  and never the other way round; the sequence goes through \<open>cleanJoin\<close>. The block of
  \<^verbatim>\<open>populateForm\<close> builds the same sequence and sends it through its inline copy of
  the duplicate suppression, which agrees with \<open>cleanJoin\<close> on tokens without white
  space around them.
\<close>

lemma updateOnboardGPU_integratedTokens:
  "updateOnboardGPU brand model family memory
     = cleanJoin (integratedTokens (orEmpty brand) (orEmpty model) (orEmpty family)
         (orEmpty memory))
   \<and> populateForm_onboardFullName g
        = inlineDedupJoin (integratedTokens (orEmpty (marca_integrada g))
            (orEmpty (modelo_integrado g)) (orEmpty (familia_integrada g))
            (if truthyNum (memoria_integrada_gb g) then templateNum (memoria_integrada_gb g)
             else []))
   \<and> (list_all (\<lambda>v. trim (orEmpty v) = orEmpty v) parts
        \<longrightarrow> inlineDedupJoin parts = cleanJoin parts)
   \<and> updateOnboardGPU (Str ''Intel Corporation'') (Str ''Intel'') Undefined Undefined
        = ''Intel Corporation Intel''
   \<and> updateOnboardGPU (Str ''Intel'') (Str ''Iris Xe'') (Str ''Intel'') Null
        = ''Intel Iris Xe Intel''
   \<and> updateOnboardGPU (Str ''intel'') (Str ''Intel Iris Xe'') (Str ''IRIS'') (Str ''8'')
        = ''Intel Iris Xe 8GB''"
proof -
  have "updateOnboardGPU brand model family memory
          = updateOnboardGPU (Str (orEmpty brand)) (Str (orEmpty model)) (Str (orEmpty family))
              (Str (orEmpty memory))"
    by (rule updateOnboardGPU_orEmpty)
  then have 1: "updateOnboardGPU brand model family memory
     = cleanJoin (integratedTokens (orEmpty brand) (orEmpty model) (orEmpty family)
         (orEmpty memory))"
    by (simp only: updateOnboardGPU_tokens integratedTokens_def js_includes_sublist)
  have "filter truthy (populateForm_onboardParts g)
          = filter truthy (integratedTokens (orEmpty (marca_integrada g))
              (orEmpty (modelo_integrado g)) (orEmpty (familia_integrada g))
              (if truthyNum (memoria_integrada_gb g) then templateNum (memoria_integrada_gb g)
               else []))"
    by (simp add: populateForm_onboardParts_def integratedTokens_def tok_def
          js_includes_sublist Let_def)
  then have 2: "populateForm_onboardFullName g
        = inlineDedupJoin (integratedTokens (orEmpty (marca_integrada g))
            (orEmpty (modelo_integrado g)) (orEmpty (familia_integrada g))
            (if truthyNum (memoria_integrada_gb g) then templateNum (memoria_integrada_gb g)
             else []))"
    by (simp only: populateForm_onboardFullName_def inlineDedupJoin_def)
  have 3: "list_all (\<lambda>v. trim (orEmpty v) = orEmpty v) parts
        \<longrightarrow> inlineDedupJoin parts = cleanJoin parts"
    by (simp add: inlineDedupJoin_trimmed)
  have 4: "updateOnboardGPU (Str ''Intel Corporation'') (Str ''Intel'') Undefined Undefined
        = ''Intel Corporation Intel''"
    by code_simp
  have 5: "updateOnboardGPU (Str ''Intel'') (Str ''Iris Xe'') (Str ''Intel'') Null
        = ''Intel Iris Xe Intel''"
    by code_simp
  have 6: "updateOnboardGPU (Str ''intel'') (Str ''Intel Iris Xe'') (Str ''IRIS'') (Str ''8'')
        = ''Intel Iris Xe 8GB''"
    by code_simp
  show ?thesis
    by (intro conjI) (rule 1, rule 2, rule 3, rule 4, rule 5, rule 6)
qed

lemma updateOnboardGPU_integratedTokens_example:
  "inlineDedupJoin [Str ''AMD'', Str ''Radeon 780M'', Str ''radeon 780m'', Str []]
     = ''AMD Radeon 780M''
   \<and> populateForm_onboardFullName
        \<lparr>tiene_dedicada = False, marca_dedicada = Null, modelo_dedicado = Null,
         memoria_dedicada_gb = None, tipo_memoria_dedicada = Null,
         marca_integrada = Str ''AMD'', modelo_integrado = Str ''Radeon 780M'',
         familia_integrada = Str ''RDNA 3'', memoria_integrada_gb = Some 2\<rparr>
        = ''AMD Radeon 780M RDNA 3 2GB''"
proof -
  let ?parts = "[Str ''AMD'', Str ''Radeon 780M'', Str ''radeon 780m'', Str []]"
  let ?g = "\<lparr>tiene_dedicada = False, marca_dedicada = Null, modelo_dedicado = Null,
         memoria_dedicada_gb = None, tipo_memoria_dedicada = Null,
         marca_integrada = Str ''AMD'', modelo_integrado = Str ''Radeon 780M'',
         familia_integrada = Str ''RDNA 3'', memoria_integrada_gb = Some 2\<rparr>"
  note T = updateOnboardGPU_integratedTokens [where parts = ?parts and g = ?g]
  have h: "list_all (\<lambda>v. trim (orEmpty v) = orEmpty v) ?parts"
    by code_simp
  have c: "cleanJoin ?parts = ''AMD Radeon 780M''"
    by code_simp
  have 1: "inlineDedupJoin ?parts = ''AMD Radeon 780M''"
    by (rule trans [OF T [THEN conjunct2, THEN conjunct2, THEN conjunct1, THEN mp, OF h] c])
  have e: "populateForm_onboardFullName ?g = ''AMD Radeon 780M RDNA 3 2GB''"
    by code_simp
  show ?thesis
    by (intro conjI) (rule 1, rule e)
qed

section \<open>No formatter throws\<close>

lemma bindE_Inr [simp]: "bindE (Inr x) f = f x"
  by (simp add: bindE_def)

lemma bindE_if:
  "bindE (if c then a else b) f = (if c then bindE a f else bindE b f)"
  by simp

lemma or_js_empty [simp]: "or_js v (Str []) = Str (orEmpty v)"
  by (cases v) (simp_all add: or_js_def)

lemma forEach_js_Inr:
  "(\<And>s x. x \<in> set xs \<Longrightarrow> f s x = Inr (g s x)) \<Longrightarrow> forEach_js f s xs = Inr (foldl g s xs)"
  by (induction xs arbitrary: s) simp_all

lemma at_js_last: "kept \<noteq> [] \<Longrightarrow> at_js kept (length kept - Suc 0) = Str (last kept)"
  by (simp add: at_js_def last_conv_nth)

lemma cleanJoin_each_js_Inr: "cleanJoin_each_js kept p = Inr (cleanJoin_each kept p)"
  by (cases "kept = []") (simp_all add: cleanJoin_each_js_def cleanJoin_each_def at_js_last Let_def)

lemma cleanJoin_js_Inr [simp]: "cleanJoin_js parts = Inr (cleanJoin parts)"
proof -
  have "forEach_js cleanJoin_each_js [] (filter truthy parts)
          = Inr (foldl cleanJoin_each [] (filter truthy parts))"
    by (rule forEach_js_Inr) (rule cleanJoin_each_js_Inr)
  then show ?thesis
    by (simp add: cleanJoin_js_def cleanJoin_def cleanParts_def)
qed

lemma inlineDedup_each_js_Inr:
  "truthy p \<Longrightarrow> inlineDedup_each_js kept p = Inr (inlineDedup_each kept p)"
  by (cases p; cases "kept = []")
     (simp_all add: inlineDedup_each_js_def inlineDedup_each_def at_js_last)

lemma inlineDedupJoin_js_Inr [simp]: "inlineDedupJoin_js parts = Inr (inlineDedupJoin parts)"
proof -
  have "forEach_js inlineDedup_each_js [] (filter truthy parts)
          = Inr (foldl inlineDedup_each [] (filter truthy parts))"
    by (rule forEach_js_Inr) (simp add: inlineDedup_each_js_Inr)
  then show ?thesis
    by (simp add: inlineDedupJoin_js_def inlineDedupJoin_def)
qed

lemma truthy_labelValue: "truthy (labelValue r) \<longleftrightarrow> (case r of None \<Rightarrow> False | Some l \<Rightarrow> l \<noteq> [])"
  by (cases r) simp_all

lemma mapResolution_js_Inr [simp]:
  "mapResolution_js res = Inr (labelValue (mapResolution res))"
  by (auto simp: mapResolution_js_def mapResolution_def Let_def split: option.splits)

lemma mapResolution_local_js_Inr [simp]:
  "mapResolution_local_js res = Inr (labelValue (mapResolution res))"
  by (cases res) (auto simp: mapResolution_local_js_def mapResolution_def split: option.splits)







lemma populateForm_screen_js_Inr [simp]:
  "populateForm_screen_js p = Inr (populateForm_screenFullName p)"
proof (cases "mapResolution (resolucion p)")
  case None
  then show ?thesis
    by (cases "tipo_hd p"; cases "tipo p")
       (simp_all add: populateForm_screen_js_def populateForm_screenFullName_def
          populateForm_screenFullNameParts_def Let_def)
next
  case (Some l)
  then show ?thesis
    by (cases "tipo_hd p"; cases "tipo p")
       (simp_all add: populateForm_screen_js_def populateForm_screenFullName_def
          populateForm_screenFullNameParts_def Let_def)
qed

lemma populateForm_discrete_js_Inr [simp]:
  "populateForm_discrete_js g = Inr (populateForm_discreteFullName g)"
  by (simp add: populateForm_discrete_js_def populateForm_discreteFullName_def
        populateForm_discreteParts_def Let_def)

lemma populateForm_onboard_js_Inr [simp]:
  "populateForm_onboard_js g = Inr (populateForm_onboardFullName g)"
  by (simp add: populateForm_onboard_js_def populateForm_onboardFullName_def
        populateForm_onboardParts_def Let_def)


section \<open>The token sequences of \<^verbatim>\<open>populateForm\<close>\<close>



lemma truthy_Str_orEmpty [simp]: "truthy (Str (orEmpty v)) = truthy v"
  by (cases v) simp_all

lemma Str_orEmpty_truthy: "truthy v \<Longrightarrow> Str (orEmpty v) = v"
  by (cases v) simp_all








section \<open>The claims\<close>

text \<open>
  C1. From 1024 GB on the capacity token is to be \<open>capacityGb / 1024\<close> with one
  decimal place, \<^verbatim>\<open>TB\<close> appended and a trailing \<^verbatim>\<open>.0\<close> stripped. On whole
  capacities both copies of the storage name do so (\<open>storage_capacity_token_whole\<close>).
  On a capacity with decimals \<open>updateStorage\<close> does not: it divides
  \<^verbatim>\<open>parseInt(capacity)\<close>, the whole part, so that the field text \<^verbatim>\<open>1587.9\<close> gives
  \<open>1587 / 1024\<close>, that is \<^verbatim>\<open>1.5TB\<close>, where \<open>1587.9 / 1024\<close> to one decimal place is
  1.6. The last conjunct is the expression of \<^verbatim>\<open>populateForm\<close>, which divides the
  number itself, on the number 1587.9.
\<close>

theorem updateStorage_fraction_truncated:
  "parseInt ''1587.9'' = Some 1587
   \<and> updateStorage_capStr ''1587.9'' = ''1.5TB''
   \<and> updateStorage (Str ''1587.9'') (Str ''SSD'') False Undefined = ''1.5TB SSD''
   \<and> replaceFirst ''.0'' [] (toFixed1 (Some (15879 / 10 / 1024)) @ ''TB'') = ''1.6TB''"
proof -
  have 1: "parseInt ''1587.9'' = Some 1587"
    by code_simp
  have 2: "updateStorage_capStr ''1587.9'' = ''1.5TB''"
    by code_simp
  have 3: "updateStorage (Str ''1587.9'') (Str ''SSD'') False Undefined = ''1.5TB SSD''"
    by code_simp
  have 4: "replaceFirst ''.0'' [] (toFixed1 (Some (15879 / 10 / 1024)) @ ''TB'') = ''1.6TB''"
    by code_simp
  show ?thesis
    by (intro conjI) (rule 1, rule 2, rule 3, rule 4)
qed

text \<open>
  C2. For every input, \<open>mapResolution\<close> gives \<^verbatim>\<open>null\<close> on an absent or empty text
  and on a text without three consecutive digits; otherwise it takes the first run of
  three or four consecutive digits (the leftmost position \<open>i\<close> where three digits
  stand, with the fourth character when that is a digit too), reads it as the integer
  \<open>h\<close> and answers by bucket: FHD for 1800 to 2000, 2K above 2000 up to 2600, 2.5K above
  2600 up to 2900, 3K above 2900 up to 3400, 4K above 3400 up to 4500, 8K above 7000 up
  to 8500, and \<^verbatim>\<open>null\<close> for every other value, such as 5000.
\<close>

theorem mapResolution_buckets:
  "(\<not> truthy res \<longrightarrow> mapResolution res = None)
   \<and> ((\<forall>j. \<not> digitsAt s j 3) \<longrightarrow> mapResolution (Str s) = None)
   \<and> (digitsAt s i 3 \<and> (\<forall>j<i. \<not> digitsAt s j 3) \<longrightarrow>
        (let m = take (if digitsAt s i 4 then 4 else 3) (drop i s);
             h = decimalValue m;
             r = mapResolution (Str s)
         in regex_d34 s = Some m
            \<and> (1800 \<le> h \<and> h \<le> 2000 \<longrightarrow> r = Some ''FHD'')
            \<and> (2000 < h \<and> h \<le> 2600 \<longrightarrow> r = Some ''2K'')
            \<and> (2600 < h \<and> h \<le> 2900 \<longrightarrow> r = Some ''2.5K'')
            \<and> (2900 < h \<and> h \<le> 3400 \<longrightarrow> r = Some ''3K'')
            \<and> (3400 < h \<and> h \<le> 4500 \<longrightarrow> r = Some ''4K'')
            \<and> (7000 < h \<and> h \<le> 8500 \<longrightarrow> r = Some ''8K'')
            \<and> (h < 1800 \<or> (4500 < h \<and> h \<le> 7000) \<or> 8500 < h \<longrightarrow> r = None)))
   \<and> mapResolution Null = None
   \<and> mapResolution (Str ''1920x1080'') = Some ''FHD''
   \<and> mapResolution (Str ''3840x2160'') = Some ''4K''
   \<and> mapResolution (Str ''at 5000px'') = None"
proof -
  have 1: "\<not> truthy res \<longrightarrow> mapResolution res = None"
    by (simp add: mapResolution_def)
  have 2: "(\<forall>j. \<not> digitsAt s j 3) \<longrightarrow> mapResolution (Str s) = None"
    by (simp add: mapResolution_no_run)
  have 3: "digitsAt s i 3 \<and> (\<forall>j<i. \<not> digitsAt s j 3) \<longrightarrow>
        (let m = take (if digitsAt s i 4 then 4 else 3) (drop i s);
             h = decimalValue m;
             r = mapResolution (Str s)
         in regex_d34 s = Some m
            \<and> (1800 \<le> h \<and> h \<le> 2000 \<longrightarrow> r = Some ''FHD'')
            \<and> (2000 < h \<and> h \<le> 2600 \<longrightarrow> r = Some ''2K'')
            \<and> (2600 < h \<and> h \<le> 2900 \<longrightarrow> r = Some ''2.5K'')
            \<and> (2900 < h \<and> h \<le> 3400 \<longrightarrow> r = Some ''3K'')
            \<and> (3400 < h \<and> h \<le> 4500 \<longrightarrow> r = Some ''4K'')
            \<and> (7000 < h \<and> h \<le> 8500 \<longrightarrow> r = Some ''8K'')
            \<and> (h < 1800 \<or> (4500 < h \<and> h \<le> 7000) \<or> 8500 < h \<longrightarrow> r = None))"
  proof
    assume a: "digitsAt s i 3 \<and> (\<forall>j<i. \<not> digitsAt s j 3)"
    then have r: "mapResolution (Str s)
           = mapResolution_label
               (int (decimalValue (take (if digitsAt s i 4 then 4 else 3) (drop i s))))"
      by (simp add: mapResolution_run)
    from a have m: "regex_d34 s = Some (take (if digitsAt s i 4 then 4 else 3) (drop i s))"
      by (simp add: regex_d34_first)
    show "let m = take (if digitsAt s i 4 then 4 else 3) (drop i s);
             h = decimalValue m;
             r = mapResolution (Str s)
         in regex_d34 s = Some m
            \<and> (1800 \<le> h \<and> h \<le> 2000 \<longrightarrow> r = Some ''FHD'')
            \<and> (2000 < h \<and> h \<le> 2600 \<longrightarrow> r = Some ''2K'')
            \<and> (2600 < h \<and> h \<le> 2900 \<longrightarrow> r = Some ''2.5K'')
            \<and> (2900 < h \<and> h \<le> 3400 \<longrightarrow> r = Some ''3K'')
            \<and> (3400 < h \<and> h \<le> 4500 \<longrightarrow> r = Some ''4K'')
            \<and> (7000 < h \<and> h \<le> 8500 \<longrightarrow> r = Some ''8K'')
            \<and> (h < 1800 \<or> (4500 < h \<and> h \<le> 7000) \<or> 8500 < h \<longrightarrow> r = None)"
      unfolding Let_def r m mapResolution_label_def by simp
  qed
  have 4: "mapResolution Null = None"
    by (simp add: mapResolution_def)
  have 5: "mapResolution (Str ''1920x1080'') = Some ''FHD''"
    by code_simp
  have 6: "mapResolution (Str ''3840x2160'') = Some ''4K''"
    by code_simp
  have 7: "mapResolution (Str ''at 5000px'') = None"
    by code_simp
  from 1 2 3 4 5 6 7 show ?thesis by blast
qed

theorem mapResolution_buckets_witness:
  "mapResolution (Str []) = None
   \<and> mapResolution (Str ''12 ab 34'') = None
   \<and> mapResolution (Str ''w2560 x 1440'') = Some ''2K''"
proof -
  have a: "\<not> truthy (Str [])" by simp
  have "regex_d34 ''12 ab 34'' = None" by code_simp
  then have b: "\<forall>j. \<not> digitsAt ''12 ab 34'' j 3"
    by (rule iffD1 [OF regex_d34_None_iff])
  have "regex_d34 ''w2560 x 1440'' = Some (take 4 (drop 1 ''w2560 x 1440''))" by code_simp
  have c3: "digitsAt ''w2560 x 1440'' 1 3" by code_simp
  have c4: "digitsAt ''w2560 x 1440'' 1 4" by code_simp
  have c0: "\<not> digitsAt ''w2560 x 1440'' 0 3" by code_simp
  have c: "digitsAt ''w2560 x 1440'' 1 3 \<and> (\<forall>j<1. \<not> digitsAt ''w2560 x 1440'' j 3)"
    using c3 c0 by simp
  have h: "decimalValue (take 4 (drop 1 ''w2560 x 1440'')) = 2560" by code_simp
  note T = mapResolution_buckets [of "Str []" "''12 ab 34''" 0]
  note U = mapResolution_buckets [of Null "''w2560 x 1440''" 1]
  have 1: "mapResolution (Str []) = None" using T a by blast
  have 2: "mapResolution (Str ''12 ab 34'') = None" using T b by blast
  have 3: "mapResolution (Str ''w2560 x 1440'') = Some ''2K''"
    using U c c4 h unfolding Let_def by simp
  from 1 2 3 show ?thesis by blast
qed

text \<open>
  C3. For every sequence of optional string tokens, \<open>cleanJoin\<close> drops the
  \<^verbatim>\<open>null\<close>, \<^verbatim>\<open>undefined\<close> and empty-after-trim entries and keeps the order of
  the rest (\<open>presentTokens\<close>, the tokens being the trimmed strings); it keeps a token
  only if it differs, ignoring case, from the kept token just before it
  (\<open>dedupAdjacent\<close>: the kept tokens are a subsequence of the present ones, no two
  neighbours among them are equal ignoring case, and up to case they are exactly the
  present tokens with adjacent repetitions removed); it joins the kept tokens with one
  space. The result is always a string, empty exactly when no token is present:
  \<open>A B A\<close> keeps all three, \<open>FHD FHD Touch\<close> gives \<open>FHD Touch\<close>, the empty and the
  all-blank sequence give the empty string.
\<close>

theorem cleanJoin_contract:
  "cleanJoin parts = join '' '' (dedupAdjacent (presentTokens parts))
   \<and> subseq (dedupAdjacent (presentTokens parts)) (presentTokens parts)
   \<and> distinct_adj (map toLowerCase (dedupAdjacent (presentTokens parts)))
   \<and> map toLowerCase (dedupAdjacent (presentTokens parts))
         = remdups_adj (map toLowerCase (presentTokens parts))
   \<and> (cleanJoin parts = [] \<longleftrightarrow> presentTokens parts = [])
   \<and> cleanJoin [Str ''A'', Str ''B'', Str ''A''] = ''A B A''
   \<and> cleanJoin [Str ''A'', Str ''A'', Str ''B''] = ''A B''
   \<and> cleanJoin [Str ''FHD'', Str ''FHD'', Str ''Touch''] = ''FHD Touch''
   \<and> cleanJoin [] = []
   \<and> cleanJoin [Null, Undefined, Str [], Str ''  ''] = []"
proof -
  have 1: "cleanJoin parts = join '' '' (dedupAdjacent (presentTokens parts))"
    by (simp add: cleanJoin_def cleanParts_dedupAdjacent)
  have 2: "subseq (dedupAdjacent (presentTokens parts)) (presentTokens parts)"
    by (rule subseq_dedupAdjacent)
  have 4: "map toLowerCase (dedupAdjacent (presentTokens parts))
             = remdups_adj (map toLowerCase (presentTokens parts))"
    by (rule map_toLowerCase_dedupAdjacent)
  have 3: "distinct_adj (map toLowerCase (dedupAdjacent (presentTokens parts)))"
    unfolding 4 by simp
  have 5: "cleanJoin parts = [] \<longleftrightarrow> presentTokens parts = []"
    by (rule cleanJoin_empty_iff)
  have 6: "cleanJoin [Str ''A'', Str ''B'', Str ''A''] = ''A B A''"
    by code_simp
  have 7: "cleanJoin [Str ''A'', Str ''A'', Str ''B''] = ''A B''"
    by code_simp
  have 8: "cleanJoin [Str ''FHD'', Str ''FHD'', Str ''Touch''] = ''FHD Touch''"
    by code_simp
  have 9: "cleanJoin [] = []"
    by code_simp
  have 10: "cleanJoin [Null, Undefined, Str [], Str ''  ''] = []"
    by code_simp
  from 1 2 3 4 5 6 7 8 9 10 show ?thesis by blast
qed

theorem cleanJoin_contract_witness:
  "cleanJoin [Str '' fhd'', Null, Str ''FHD '', Str [], Str ''Touch'', Str ''fhd''] = ''fhd Touch fhd''"
proof -
  have "join '' '' (dedupAdjacent (presentTokens
          [Str '' fhd'', Null, Str ''FHD '', Str [], Str ''Touch'', Str ''fhd'']))
        = ''fhd Touch fhd''"
    by code_simp
  with cleanJoin_contract [of "[Str '' fhd'', Null, Str ''FHD '', Str [], Str ''Touch'', Str ''fhd'']"]
  show ?thesis by (simp only:)
qed

text \<open>
  C4. The refresh-rate token is to appear if and only if the rate is present and above
  60. \<open>updateScreen\<close> does so (\<open>updateScreen_refresh_pushed\<close>,
  \<open>updateScreen_refresh_omitted\<close>), but the screen block of \<^verbatim>\<open>populateForm\<close> pushes
  the token for every rate other than 0: for a 15 inch FHD panel at the baseline of
  60 Hz it writes a name with \<^verbatim>\<open>60Hz\<close>, where \<open>updateScreen\<close> on the same field
  values writes none.
\<close>

theorem populateForm_screen_60Hz:
  "populateForm_screenFullName
     \<lparr>resolucion = Str ''1920x1080'', tipo_hd = Str ''FHD'', diagonal_pulgadas = Some 15,
      tipo = Str ''IPS-Level'', tasa_refresco_hz = Some 60, tactil = False\<rparr>
     = ''15'' @ [CHR 0x22] @ '' FHD IPS 60Hz''
   \<and> updateScreen (Str ''15'') (Str ''1920x1080'') (Str ''FHD'') (Str ''IPS-Level'')
         (Str ''60'') False
     = ''15'' @ [CHR 0x22] @ '' FHD IPS''"
proof -
  have 1: "populateForm_screenFullName
     \<lparr>resolucion = Str ''1920x1080'', tipo_hd = Str ''FHD'', diagonal_pulgadas = Some 15,
      tipo = Str ''IPS-Level'', tasa_refresco_hz = Some 60, tactil = False\<rparr>
     = ''15'' @ [CHR 0x22] @ '' FHD IPS 60Hz''"
    by code_simp
  have 2: "updateScreen (Str ''15'') (Str ''1920x1080'') (Str ''FHD'') (Str ''IPS-Level'')
         (Str ''60'') False
     = ''15'' @ [CHR 0x22] @ '' FHD IPS''"
    by code_simp
  show ?thesis
    by (intro conjI) (rule 1, rule 2)
qed

text \<open>
  C5. Without the flag \<^verbatim>\<open>hasDiscrete\<close> the discrete formatter returns the empty
  string whatever brand, model, memory and memory type are: \<open>updateDiscreteGPU\<close> writes
  \<^verbatim>\<open>''\<close> and returns before it reads them, and the block of \<^verbatim>\<open>populateForm\<close> is
  skipped, so that no discrete name is derived. With the flag the same fields give a
  name.
\<close>

theorem updateDiscreteGPU_gate:
  "updateDiscreteGPU False brand model memory memoryType = []
   \<and> populateForm_discreteFullName (g\<lparr>tiene_dedicada := False\<rparr>) = None
   \<and> updateDiscreteGPU False (Str ''NVIDIA'') (Str ''RTX 4060'') Undefined Undefined = []
   \<and> updateDiscreteGPU True (Str ''NVIDIA'') (Str ''RTX 4060'') Undefined Undefined
        = ''NVIDIA RTX 4060''"
proof -
  have 1: "updateDiscreteGPU False brand model memory memoryType = []"
    by (simp add: updateDiscreteGPU_def)
  have 2: "populateForm_discreteFullName (g\<lparr>tiene_dedicada := False\<rparr>) = None"
    by (simp add: populateForm_discreteFullName_def)
  have 3: "updateDiscreteGPU False (Str ''NVIDIA'') (Str ''RTX 4060'') Undefined Undefined = []"
    by (simp add: updateDiscreteGPU_def)
  have 4: "updateDiscreteGPU True (Str ''NVIDIA'') (Str ''RTX 4060'') Undefined Undefined
             = ''NVIDIA RTX 4060''"
    by code_simp
  from 1 2 3 4 show ?thesis by blast
qed

text \<open>
  C6, as the code has it. The claim that an absent model empties the processor name
  fails: generation and family are still joined.
\<close>

theorem updateProcessor_no_model_counterexample:
  "updateProcessor (Str ''Intel'') (Str ''Intel Core i7'') (Str []) = ''Intel Core i7''
   \<and> updateProcessor (Str ''Ryzen 7'') Undefined Undefined \<noteq> []"
proof -
  have 1: "updateProcessor (Str ''Intel'') (Str ''Intel Core i7'') (Str []) = ''Intel Core i7''"
    by code_simp
  have "updateProcessor (Str ''Ryzen 7'') Undefined Undefined = ''Ryzen 7''"
    by code_simp
  then have 2: "updateProcessor (Str ''Ryzen 7'') Undefined Undefined \<noteq> []"
    by simp
  from 1 2 show ?thesis by blast
qed

text \<open>
  C6, amended. For every processor whose model is absent or empty the model contributes
  no token: the name is the join of the generation and family tokens alone, and it is
  the empty string exactly when generation and family are both blank.
\<close>

theorem updateProcessor_without_model:
  assumes "\<not> truthy processor_model"
  shows "updateProcessor family generation processor_model
           = cleanJoin (butlast (updateProcessor_parts family generation processor_model))
         \<and> (updateProcessor family generation processor_model = []
              \<longleftrightarrow> trim (orEmpty family) = [] \<and> trim (orEmpty generation) = [])"
proof -
  let ?f = "orEmpty family" and ?g = "orEmpty generation"
  let ?G = "if ?g \<noteq> [] then [Str ?g] else []"
  let ?F = "if ?f \<noteq> [] \<and> \<not> js_includes (toLowerCase ?g) (toLowerCase ?f)
            then [Str ?f] else []"
  from assms have m: "orEmpty processor_model = []"
    by (cases processor_model) simp_all
  have parts: "updateProcessor_parts family generation processor_model = (?G @ ?F) @ [Str []]"
    by (simp add: updateProcessor_parts_def m)
  have pt: "presentTokens ((?G @ ?F) @ [Str []]) = presentTokens (?G @ ?F)"
    by (simp add: presentTokens_append)
  have 1: "updateProcessor family generation processor_model
             = cleanJoin (butlast (updateProcessor_parts family generation processor_model))"
    unfolding updateProcessor_def parts butlast_snoc
    by (rule cleanJoin_presentTokens_cong) (rule pt)
  have "presentTokens (?G @ ?F) = [] \<longleftrightarrow> trim ?f = [] \<and> trim ?g = []"
  proof (cases "trim ?g = []")
    case True
    show ?thesis
    proof (cases "trim ?f = []")
      case f: True
      with True show ?thesis by (simp add: presentTokens_append)
    next
      case f: False
      have "\<not> js_includes (toLowerCase ?g) (toLowerCase ?f)"
        using js_includes_blank [OF _ True] f by blast
      moreover from f have "?f \<noteq> []" by auto
      ultimately show ?thesis
        using True f by (simp add: presentTokens_append)
    qed
  next
    case False
    moreover from False have "?g \<noteq> []" by auto
    ultimately show ?thesis by (simp add: presentTokens_append)
  qed
  then have 2: "updateProcessor family generation processor_model = []
              \<longleftrightarrow> trim (orEmpty family) = [] \<and> trim (orEmpty generation) = []"
    unfolding updateProcessor_def parts cleanJoin_empty_iff pt .
  from 1 2 show ?thesis by blast
qed

theorem updateProcessor_without_model_witness:
  "\<not> truthy (Str [])
   \<and> updateProcessor (Str ''Intel'') (Str ''Intel Core i7'') (Str []) = ''Intel Core i7''
   \<and> updateProcessor (Str '' '') (Str []) (Str []) = []"
proof -
  have a: "\<not> truthy (Str [])" by simp
  have p: "cleanJoin (butlast (updateProcessor_parts (Str ''Intel'') (Str ''Intel Core i7'') (Str [])))
             = ''Intel Core i7''"
    by code_simp
  have b: "trim (orEmpty (Str '' '')) = [] \<and> trim (orEmpty (Str [])) = []"
    by code_simp
  from updateProcessor_without_model [OF a, of "Str ''Intel''" "Str ''Intel Core i7''"] p
  have 1: "updateProcessor (Str ''Intel'') (Str ''Intel Core i7'') (Str []) = ''Intel Core i7''"
    by simp
  from updateProcessor_without_model [OF a, of "Str '' ''" "Str []"] b
  have 2: "updateProcessor (Str '' '') (Str []) (Str []) = []"
    by blast
  from a 1 2 show ?thesis by blast
qed




text \<open>
  C8. The tokens brand, model, family and memory, the brand and the family only when the
  model does not contain them ignoring case, are to go through \<open>cleanJoin\<close>.
  \<open>updateOnboardGPU\<close> does so (\<open>updateOnboardGPU_integratedTokens\<close>). The block of
  \<^verbatim>\<open>populateForm\<close> builds the same tokens but joins them with its inline copy of the
  duplicate suppression, which does not trim: a family \<^verbatim>\<open>iris xe\<close> followed by a
  space, beside the model \<^verbatim>\<open>Iris Xe\<close>, survives there with its space, where
  \<open>cleanJoin\<close> on the same tokens, and \<open>updateOnboardGPU\<close> on the same fields, drop
  it as a repetition of the model.
\<close>

theorem populateForm_onboard_untrimmed:
  "populateForm_onboardFullName
     \<lparr>tiene_dedicada = False, marca_dedicada = Null, modelo_dedicado = Null,
      memoria_dedicada_gb = None, tipo_memoria_dedicada = Null,
      marca_integrada = Str ''Intel'', modelo_integrado = Str ''Iris Xe'',
      familia_integrada = Str ''iris xe '', memoria_integrada_gb = None\<rparr>
     = ''Intel Iris Xe iris xe ''
   \<and> cleanJoin (populateForm_onboardParts
        \<lparr>tiene_dedicada = False, marca_dedicada = Null, modelo_dedicado = Null,
         memoria_dedicada_gb = None, tipo_memoria_dedicada = Null,
         marca_integrada = Str ''Intel'', modelo_integrado = Str ''Iris Xe'',
         familia_integrada = Str ''iris xe '', memoria_integrada_gb = None\<rparr>)
     = ''Intel Iris Xe''
   \<and> updateOnboardGPU (Str ''Intel'') (Str ''Iris Xe'') (Str ''iris xe '') Undefined
     = ''Intel Iris Xe''"
proof -
  have 1: "populateForm_onboardFullName
     \<lparr>tiene_dedicada = False, marca_dedicada = Null, modelo_dedicado = Null,
      memoria_dedicada_gb = None, tipo_memoria_dedicada = Null,
      marca_integrada = Str ''Intel'', modelo_integrado = Str ''Iris Xe'',
      familia_integrada = Str ''iris xe '', memoria_integrada_gb = None\<rparr>
     = ''Intel Iris Xe iris xe ''"
    by code_simp
  have 2: "cleanJoin (populateForm_onboardParts
        \<lparr>tiene_dedicada = False, marca_dedicada = Null, modelo_dedicado = Null,
         memoria_dedicada_gb = None, tipo_memoria_dedicada = Null,
         marca_integrada = Str ''Intel'', modelo_integrado = Str ''Iris Xe'',
         familia_integrada = Str ''iris xe '', memoria_integrada_gb = None\<rparr>)
     = ''Intel Iris Xe''"
    by code_simp
  have 3: "updateOnboardGPU (Str ''Intel'') (Str ''Iris Xe'') (Str ''iris xe '') Undefined
     = ''Intel Iris Xe''"
    by code_simp
  show ?thesis
    by (intro conjI) (rule 1, rule 2, rule 3)
qed



text \<open>
  C10. When the first run of digits of the text (no digit stands before it) is longer
  than four digits, \<open>mapResolution\<close> does not answer \<^verbatim>\<open>null\<close> for want of a run of
  three or four digits: the match is the first four digits of that run, and the label
  is the bucket of these four digits, the same as for a text made of them alone. A
  text containing 18000 maps through 1800 to FHD, one containing 10000 through 1000 to
  \<^verbatim>\<open>null\<close>.
\<close>

theorem mapResolution_long_run:
  assumes "list_all (\<lambda>c. \<not> isDigit c) pre" and "list_all isDigit ds" and "4 < length ds"
  shows "regex_d34 (pre @ ds @ post) = Some (take 4 ds)
         \<and> mapResolution (Str (pre @ ds @ post))
             = mapResolution_label (int (decimalValue (take 4 ds)))
         \<and> mapResolution (Str (pre @ ds @ post)) = mapResolution (Str (take 4 ds))
         \<and> mapResolution (Str ''18000'') = Some ''FHD''
         \<and> mapResolution (Str ''10000'') = None"
proof -
  let ?s = "pre @ ds @ post"
  let ?i = "length pre"
  have d4: "digitsAt ?s ?i 4"
    using assms(2,3) by (simp add: digitsAt_def list_all_length)
  have d3: "digitsAt ?s ?i 3"
    using assms(2,3) by (simp add: digitsAt_def list_all_length)
  have before: "\<forall>j<?i. \<not> digitsAt ?s j 3"
  proof (intro allI impI notI)
    fix j
    assume j: "j < ?i" and d: "digitsAt ?s j 3"
    from digitsAt_nth [OF d, of 0] have "isDigit (?s ! j)" by simp
    with j have "isDigit (pre ! j)" by (simp add: nth_append)
    with assms(1) j show False by (simp add: list_all_length)
  qed
  have tk: "take (if digitsAt ?s ?i 4 then 4 else 3) (drop ?i ?s) = take 4 ds"
    using d4 assms(3) by simp
  have 1: "regex_d34 ?s = Some (take 4 ds)"
    using regex_d34_first [OF d3 before] tk by simp
  have 2: "mapResolution (Str ?s) = mapResolution_label (int (decimalValue (take 4 ds)))"
    using mapResolution_run [OF d3 before] tk by simp
  have e3: "digitsAt (take 4 ds) 0 3" and e4: "digitsAt (take 4 ds) 0 4"
    using assms(2,3) by (simp_all add: digitsAt_def list_all_length)
  have "mapResolution (Str (take 4 ds))
          = mapResolution_label (int (decimalValue (take (if digitsAt (take 4 ds) 0 4 then 4 else 3)
                (drop 0 (take 4 ds)))))"
    by (rule mapResolution_run) (use e3 in simp_all)
  with e4 have 3: "mapResolution (Str ?s) = mapResolution (Str (take 4 ds))"
    using 2 by simp
  have 4: "mapResolution (Str ''18000'') = Some ''FHD''"
    by code_simp
  have 5: "mapResolution (Str ''10000'') = None"
    by code_simp
  from 1 2 3 4 5 show ?thesis by blast
qed

theorem mapResolution_long_run_witness:
  "mapResolution (Str ''w: 38400 x 21600'') = Some ''4K''
   \<and> regex_d34 ''w: 38400 x 21600'' = Some ''3840''"
proof -
  have a: "list_all (\<lambda>c. \<not> isDigit c) ''w: ''" by code_simp
  have b: "list_all isDigit ''38400''" by code_simp
  have c: "4 < length ''38400''" by simp
  have l: "mapResolution_label (int (decimalValue (take 4 ''38400''))) = Some ''4K''"
    by code_simp
  from mapResolution_long_run [OF a b c, of "'' x 21600''"] l
  show ?thesis by simp
qed

end
